theory Spec2Isabelle
  imports Complex_Main
begin

section \<open>Python values and strings\<close>

text \<open>
  Strings are lists of characters. \<open>str.lower\<close> is modelled on the ASCII letters;
  every other character is left as it is. The metric names, the weather keywords and
  the category names of the program are all ASCII.
\<close>

definition is_upper :: "char \<Rightarrow> bool" where
  "is_upper c = (65 \<le> (of_char c :: nat) \<and> (of_char c :: nat) \<le> 90)"

definition is_lower :: "char \<Rightarrow> bool" where
  "is_lower c = (97 \<le> (of_char c :: nat) \<and> (of_char c :: nat) \<le> 122)"

definition lower_char :: "char \<Rightarrow> char" where
  "lower_char c = (if is_upper c then char_of ((of_char c :: nat) + 32) else c)"

definition upper_char :: "char \<Rightarrow> char" where
  "upper_char c = (if is_lower c then char_of ((of_char c :: nat) - 32) else c)"

definition py_lower :: "string \<Rightarrow> string" where
  "py_lower s = map lower_char s"

text \<open>\<open>k in s\<close> on two strings: \<open>k\<close> occurs in \<open>s\<close> as a contiguous run.\<close>

fun starts_with :: "string \<Rightarrow> string \<Rightarrow> bool" where
  "starts_with s [] = True"
| "starts_with [] (k # ks) = False"
| "starts_with (c # cs) (k # ks) = (c = k \<and> starts_with cs ks)"

fun py_in :: "string \<Rightarrow> string \<Rightarrow> bool" where
  "py_in k [] = (k = [])"
| "py_in k (c # cs) = (starts_with (c # cs) k \<or> py_in k cs)"

text \<open>
  The values that reach the program from JSON documents (the weather service's reply,
  the advisory opinion). A number is a real: the program only compares numbers, and
  Python compares an int with a float by value. An object is an association list,
  looked up from the front.
\<close>

datatype json =
    JNull
  | JBool bool
  | JNum real
  | JStr string
  | JArr "json list"
  | JObj "(string \<times> json) list"

datatype error =
    HTTP nat
  | TypeError
  | IndexError
  | KeyError
  | AttributeError

text \<open>Truth value of an object in a condition (\<open>if x:\<close>, \<open>not x\<close>, \<open>x or y\<close>).\<close>

fun truthy :: "json \<Rightarrow> bool" where
  "truthy JNull = False"
| "truthy (JBool b) = b"
| "truthy (JNum x) = (x \<noteq> 0)"
| "truthy (JStr s) = (s \<noteq> [])"
| "truthy (JArr xs) = (xs \<noteq> [])"
| "truthy (JObj kv) = (kv \<noteq> [])"

text \<open>\<open>d.get(k, default)\<close>: only a dict has the method.\<close>

fun py_get :: "json \<Rightarrow> string \<Rightarrow> json \<Rightarrow> error + json" where
  "py_get (JObj kv) k dflt = (case map_of kv k of None \<Rightarrow> Inr dflt | Some v \<Rightarrow> Inr v)"
| "py_get _ k dflt = Inl AttributeError"

text \<open>\<open>x[0]\<close>.\<close>

fun py_item0 :: "json \<Rightarrow> error + json" where
  "py_item0 (JArr []) = Inl IndexError"
| "py_item0 (JArr (x # xs)) = Inr x"
| "py_item0 (JStr []) = Inl IndexError"
| "py_item0 (JStr (c # cs)) = Inr (JStr [c])"
| "py_item0 (JObj kv) = Inl KeyError"
| "py_item0 _ = Inl TypeError"

text \<open>\<open>x.lower()\<close>: only a string has the method.\<close>

fun py_str_lower :: "json \<Rightarrow> error + string" where
  "py_str_lower (JStr s) = Inr (py_lower s)"
| "py_str_lower _ = Inl AttributeError"

text \<open>
  The numeric value of an object in an ordering comparison with a number: a bool
  counts as 0 or 1, anything else but a number raises TypeError.
\<close>

fun num_of :: "json \<Rightarrow> error + real" where
  "num_of (JNum x) = Inr x"
| "num_of (JBool b) = Inr (if b then 1 else 0)"
| "num_of _ = Inl TypeError"

text \<open>\<open>x > n\<close> for a number \<open>n\<close>.\<close>

definition py_gt :: "json \<Rightarrow> real \<Rightarrow> error + bool" where
  "py_gt x n = (case num_of x of Inl e \<Rightarrow> Inl e | Inr v \<Rightarrow> Inr (v > n))"

text \<open>
  \<open>min(a, b)\<close> returns \<open>b\<close> when \<open>b < a\<close> and \<open>a\<close> otherwise; \<open>max(a, b)\<close> returns
  \<open>b\<close> when \<open>b > a\<close> and \<open>a\<close> otherwise. The first argument is a number here.
\<close>

definition py_min :: "real \<Rightarrow> json \<Rightarrow> error + json" where
  "py_min a b = (case num_of b of Inl e \<Rightarrow> Inl e | Inr v \<Rightarrow> Inr (if v < a then b else JNum a))"

definition py_max :: "real \<Rightarrow> json \<Rightarrow> error + json" where
  "py_max a b = (case num_of b of Inl e \<Rightarrow> Inl e | Inr v \<Rightarrow> Inr (if v > a then b else JNum a))"

text \<open>\<open>k in x\<close> for a string \<open>k\<close>, and \<open>x[k]\<close> for a key that is there.\<close>

fun py_has_key :: "json \<Rightarrow> string \<Rightarrow> error + bool" where
  "py_has_key (JObj kv) k = Inr (map_of kv k \<noteq> None)"
| "py_has_key (JStr s) k = Inr (py_in k s)"
| "py_has_key (JArr xs) k = Inr (JStr k \<in> set xs)"
| "py_has_key _ k = Inl TypeError"

fun py_index :: "json \<Rightarrow> string \<Rightarrow> error + json" where
  "py_index (JObj kv) k = (case map_of kv k of None \<Rightarrow> Inl KeyError | Some v \<Rightarrow> Inr v)"
| "py_index _ k = Inl TypeError"

text \<open>Sequencing of steps that may raise: the first exception ends the computation.\<close>

definition seq :: "error + 'a \<Rightarrow> ('a \<Rightarrow> error + 'b) \<Rightarrow> error + 'b" where
  "seq m f = (case m of Inl e \<Rightarrow> Inl e | Inr x \<Rightarrow> f x)"

text \<open>\<open>str.replace('_', ' ')\<close>, \<open>str.title()\<close> and \<open>sep.join(xs)\<close>.\<close>

definition replace_underscore :: "string \<Rightarrow> string" where
  "replace_underscore s = map (\<lambda>c. if c = CHR ''_'' then CHR '' '' else c) s"

fun title_from :: "bool \<Rightarrow> string \<Rightarrow> string" where
  "title_from previous_is_cased [] = []"
| "title_from previous_is_cased (c # cs) =
     (if is_lower c then
        (if previous_is_cased then c else upper_char c) # title_from True cs
      else if is_upper c then
        (if previous_is_cased then lower_char c else c) # title_from True cs
      else c # title_from False cs)"

definition py_title :: "string \<Rightarrow> string" where
  "py_title s = title_from False s"

fun py_join :: "string \<Rightarrow> string list \<Rightarrow> string" where
  "py_join sep [] = []"
| "py_join sep [x] = x"
| "py_join sep (x # y # ys) = x @ sep @ py_join sep (y # ys)"

section \<open>Data model\<close>

datatype date = Date (year: nat) (month: nat) (day: nat)

text \<open>
  schemas.py: \<open>ComplianceRecordBase\<close>, \<open>ComplianceRecordCreate\<close>; models.py:
  \<open>ComplianceRecord\<close> and \<open>Supplier\<close>. The status is a plain string in both;
  the program writes the verdicts as \<open>compliant\<close>, \<open>non-compliant\<close> and
  \<open>excused-weather\<close>. A float is a real: the program only compares the result with
  the expected value.
\<close>

record ComplianceRecordBase =
  metric :: string
  date_recorded :: date
  result :: real
  expected_value :: "real option"
  status :: string

record ComplianceRecordCreate = ComplianceRecordBase +
  supplier_id :: int

text \<open>
  The three values the comments of models.py (line 32) and schemas.py (line 42) give
  for the status.
\<close>

definition valid_status :: "string \<Rightarrow> bool" where
  "valid_status s = (s \<in> set [''compliant'', ''non-compliant'', ''excused-weather''])"

section \<open>Metric classification (compliance.py, check_compliance, lines 47-58)\<close>

definition status_value :: "'a ComplianceRecordBase_scheme \<Rightarrow> string" where
  "status_value record_data =
     (case expected_value record_data of
        Some expected \<Rightarrow>
          if py_lower (metric record_data) \<in> set [''delivery_time'', ''lead_time''] then
            (if result record_data \<le> expected then ''compliant'' else ''non-compliant'')
          else if py_lower (metric record_data) \<in> set [''quality_score'', ''quality_rating''] then
            (if result record_data \<ge> expected then ''compliant'' else ''non-compliant'')
          else status record_data
      | None \<Rightarrow> status record_data)"

section \<open>Weather service (weather_service.py)\<close>

text \<open>
  One entry of \<open>adverse_conditions_found\<close>: a dict with the keys \<open>type\<close> and
  \<open>description\<close>, and either \<open>main\<close> (a keyword hit) or \<open>measurement\<close> (a threshold
  hit). The test \<open>'measurement' in condition\<close> is \<open>measurement c \<noteq> None\<close>.
\<close>

record finding =
  cond_type :: string
  description :: string
  main :: "string option"
  measurement :: "json option"

text \<open>
  The dict returned by \<open>analyze_adverse_weather\<close>. The last four keys are absent from
  the result for missing weather data.
\<close>

record analysis =
  has_adverse_weather :: bool
  conditions :: "finding list"
  severity :: string
  justification :: string
  weather_description :: "string option"
  temperature :: "json option"
  wind_speed :: "json option"
  mock_data :: "json option"

text \<open>\<open>self.adverse_conditions\<close>, in insertion order.\<close>

definition adverse_conditions :: "(string \<times> string list) list" where
  "adverse_conditions =
     [(''thunderstorm'', [''thunderstorm'', ''storm'']),
      (''heavy_rain'', [''heavy rain'', ''extreme rain'', ''heavy intensity rain'']),
      (''snow'', [''snow'', ''blizzard'', ''heavy snow'']),
      (''fog'', [''fog'', ''mist'']),
      (''extreme_weather'', [''tornado'', ''hurricane'', ''typhoon''])]"

definition severity_keywords :: "string list" where
  "severity_keywords = [''extreme'', ''heavy'', ''severe'', ''thunderstorm'', ''snow'', ''blizzard'']"

subsection \<open>\_generate\_justification (lines 202-218)\<close>

definition condition_description :: "finding \<Rightarrow> string" where
  "condition_description condition =
     (if measurement condition \<noteq> None then description condition
      else py_title (replace_underscore (cond_type condition)))"

definition generate_justification :: "finding list \<Rightarrow> string \<Rightarrow> string" where
  "generate_justification adverse weather_desc =
     (if adverse = [] then
        ''No adverse weather conditions detected that would impact delivery.''
      else
        let condition_descriptions = map condition_description adverse in
        if length condition_descriptions = 1 then
          ''Delivery delay justified due to adverse weather: '' @ condition_descriptions ! 0
            @ ''. Weather conditions: '' @ weather_desc @ ''.''
        else
          let conditions_str = py_join '', '' (butlast condition_descriptions)
                @ '' and '' @ last condition_descriptions
          in ''Delivery delay justified due to multiple adverse weather conditions: ''
               @ conditions_str @ ''. Weather conditions: '' @ weather_desc @ ''.'')"

subsection \<open>analyze\_adverse\_weather (lines 109-200)\<close>

text \<open>The result for missing weather data (lines 119-125).\<close>

definition no_weather_data :: analysis where
  "no_weather_data =
     \<lparr>has_adverse_weather = False, conditions = [], severity = ''none'',
      justification = ''No weather data available'',
      weather_description = None, temperature = None, wind_speed = None, mock_data = None\<rparr>"

text \<open>
  Lines 132-133: \<open>weather_info.get('weather', [{}])[0].get(key, '').lower()\<close>.
\<close>

definition weather_text :: "json \<Rightarrow> string \<Rightarrow> error + string" where
  "weather_text weather_info key =
     seq (py_get weather_info ''weather'' (JArr [JObj []])) (\<lambda>w.
     seq (py_item0 w) (\<lambda>w0.
     seq (py_get w0 key (JStr [])) (\<lambda>t.
     py_str_lower t)))"

text \<open>Lines 136-143: one finding for every keyword of the table that occurs.\<close>

definition keyword_findings :: "string \<Rightarrow> string \<Rightarrow> finding list" where
  "keyword_findings weather_desc weather_main =
     concat (map (\<lambda>(condition_type, keywords).
       concat (map (\<lambda>keyword.
         if py_in keyword weather_desc \<or> py_in keyword weather_main then
           [\<lparr>cond_type = condition_type, description = weather_desc,
             main = Some weather_main, measurement = None\<rparr>]
         else []) keywords)) adverse_conditions)"

text \<open>
  Lines 150 and 159: \<open>p.get('1h', 0) or p.get('3h', 0)\<close>. The second lookup runs only
  when the first value is false.
\<close>

definition amount_1h_or_3h :: "json \<Rightarrow> error + json" where
  "amount_1h_or_3h p =
     seq (py_get p ''1h'' (JNum 0)) (\<lambda>a.
       if truthy a then Inr a else py_get p ''3h'' (JNum 0))"

text \<open>
  Lines 149-174. The f-strings print a number with Python's \<open>str\<close>, which is not part
  of the program: it is the parameter \<open>fmt\<close>.
\<close>

definition rain_findings :: "(json \<Rightarrow> string) \<Rightarrow> json \<Rightarrow> error + finding list" where
  "rain_findings fmt rain =
     (if truthy rain then
        seq (amount_1h_or_3h rain) (\<lambda>rain_1h.
        seq (py_gt rain_1h 10) (\<lambda>heavy.
          Inr (if heavy then
                 [\<lparr>cond_type = ''heavy_rain'',
                   description = ''Heavy rainfall: '' @ fmt rain_1h @ ''mm'',
                   main = None, measurement = Some rain_1h\<rparr>]
               else [])))
      else Inr [])"

definition snow_findings :: "(json \<Rightarrow> string) \<Rightarrow> json \<Rightarrow> error + finding list" where
  "snow_findings fmt snow =
     (if truthy snow then
        seq (amount_1h_or_3h snow) (\<lambda>snow_1h.
        seq (py_gt snow_1h 0) (\<lambda>any.
          Inr (if any then
                 [\<lparr>cond_type = ''snow'',
                   description = ''Snowfall: '' @ fmt snow_1h @ ''mm'',
                   main = None, measurement = Some snow_1h\<rparr>]
               else [])))
      else Inr [])"

definition wind_findings :: "(json \<Rightarrow> string) \<Rightarrow> json \<Rightarrow> error + finding list" where
  "wind_findings fmt speed =
     seq (py_gt speed 15) (\<lambda>strong.
       Inr (if strong then
              [\<lparr>cond_type = ''strong_wind'',
                description = ''Strong winds: '' @ fmt speed @ '' m/s'',
                main = None, measurement = Some speed\<rparr>]
            else []))"

text \<open>Lines 176-184.\<close>

definition determine_severity :: "finding list \<Rightarrow> string \<Rightarrow> string" where
  "determine_severity found weather_desc =
     (if length found > 0 then
        (if \<exists>keyword \<in> set severity_keywords. py_in keyword weather_desc then ''high''
         else if length found > 1 then ''medium''
         else ''low'')
      else ''none'')"

text \<open>Lines 127-200, for the first observation \<open>weather_info\<close>.\<close>

definition analyze_observation :: "(json \<Rightarrow> string) \<Rightarrow> json \<Rightarrow> json \<Rightarrow> error + analysis" where
  "analyze_observation fmt weather_info mock =
     seq (weather_text weather_info ''description'') (\<lambda>weather_desc.
     seq (weather_text weather_info ''main'') (\<lambda>weather_main.
     seq (py_get weather_info ''rain'' (JObj [])) (\<lambda>rain.
     seq (py_get weather_info ''snow'' (JObj [])) (\<lambda>snow.
     seq (rain_findings fmt rain) (\<lambda>rain_found.
     seq (snow_findings fmt snow) (\<lambda>snow_found.
     seq (py_get weather_info ''wind_speed'' (JNum 0)) (\<lambda>speed.
     seq (wind_findings fmt speed) (\<lambda>wind_found.
     seq (py_get weather_info ''temp'' JNull) (\<lambda>temp.
       let found = keyword_findings weather_desc weather_main
                     @ rain_found @ snow_found @ wind_found
       in Inr \<lparr>has_adverse_weather = length found > 0,
               conditions = found,
               severity = determine_severity found weather_desc,
               justification = generate_justification found weather_desc,
               weather_description = Some weather_desc,
               temperature = Some temp,
               wind_speed = Some speed,
               mock_data = Some mock\<rparr>)))))))))"

definition analyze_adverse_weather :: "(json \<Rightarrow> string) \<Rightarrow> json \<Rightarrow> error + analysis" where
  "analyze_adverse_weather fmt wdata =
     (if \<not> truthy wdata then Inr no_weather_data
      else
        seq (py_has_key wdata ''data'') (\<lambda>has_data.
          if \<not> has_data then Inr no_weather_data
          else
            seq (py_index wdata ''data'') (\<lambda>data.
            seq (py_item0 data) (\<lambda>weather_info.
            seq (py_get wdata ''mock'' (JBool False)) (\<lambda>mock.
              analyze_observation fmt weather_info mock)))))"

text \<open>\<open>_mock_weather_data\<close> (lines 92-107).\<close>

definition mock_weather_data :: json where
  "mock_weather_data =
     JObj [(''data'', JArr [JObj
              [(''dt'', JNum 1691462400), (''temp'', JNum 25),
               (''weather'', JArr [JObj [(''main'', JStr ''Clear''),
                                         (''description'', JStr ''clear sky'')]]),
               (''wind_speed'', JNum 3.5), (''rain'', JNull), (''snow'', JNull)]]),
           (''mock'', JBool True)]"

section \<open>Stored data (models.py) and requests (schemas.py)\<close>

text \<open>
  The two tables are lists of rows. The columns the routers below never read
  (\<open>contract_terms\<close>, \<open>last_audit\<close>, the timestamps) are left out. The score of a
  supplier is the Python object the router assigns to it, kept by the store as it is.
\<close>

record ComplianceRecordModel = ComplianceRecordCreate +
  rec_id :: int
  ai_analysis :: "json option"
  weather_data :: "analysis option"
  weather_justification :: "string option"

record Supplier =
  sup_id :: int
  name :: string
  country :: string
  compliance_score :: json

record database =
  suppliers :: "Supplier list"
  compliance_records :: "ComplianceRecordModel list"

record ComplianceCheckRequest =
  cc_supplier_id :: int
  compliance_data :: "ComplianceRecordBase list"

record ComplianceCheckResponse =
  cc_records :: "ComplianceRecordModel list"
  cc_ai_analysis :: json
  updated_compliance_score :: json

record WeatherImpactRequest =
  wi_supplier_id :: int
  compliance_record_id :: "int option"
  lat :: "real option"
  lon :: "real option"
  delivery_date :: string

record WeatherImpactResponse =
  weather_analysis :: analysis
  wi_justification :: string
  status_updated :: bool
  updated_records :: "ComplianceRecordModel list"

text \<open>\<open>query.filter(p).first()\<close>, and the mutation of the row it returned.\<close>

definition first_where :: "('a \<Rightarrow> bool) \<Rightarrow> 'a list \<Rightarrow> 'a option" where
  "first_where p rows = List.find p rows"

fun update_first :: "('a \<Rightarrow> bool) \<Rightarrow> ('a \<Rightarrow> 'a) \<Rightarrow> 'a list \<Rightarrow> 'a list" where
  "update_first p f [] = []"
| "update_first p f (x # xs) = (if p x then f x # xs else x # update_first p f xs)"

text \<open>
  The primary key the store gives to a new row: one more than the largest key in the
  table.
\<close>

definition next_id :: "ComplianceRecordModel list \<Rightarrow> int" where
  "next_id rows = fold max (map rec_id rows) 0 + 1"

section \<open>Ingestion (routers/compliance.py)\<close>

text \<open>Lines 45-71 and 104-105: the rows staged for a batch, numbered from \<open>n\<close>.\<close>

fun stage :: "int \<Rightarrow> int \<Rightarrow> json \<Rightarrow> ComplianceRecordBase list \<Rightarrow> ComplianceRecordModel list" where
  "stage n sid ai [] = []"
| "stage n sid ai (record_data # rest) =
     \<lparr>metric = metric record_data, date_recorded = date_recorded record_data,
      result = result record_data, expected_value = expected_value record_data,
      status = status_value record_data, supplier_id = sid, rec_id = n,
      ai_analysis = Some ai, weather_data = None, weather_justification = None\<rparr>
     # stage (n + 1) sid ai rest"

text \<open>Lines 108-109; the exception of a step is the exception of the whole.\<close>

definition clamp_score :: "json \<Rightarrow> json \<Rightarrow> error + json" where
  "clamp_score ai current =
     seq (py_get ai ''compliance_score_suggestion'' current) (\<lambda>suggested_score.
     seq (py_min 100 suggested_score) (\<lambda>m.
     py_max 0 m))"

text \<open>
  Line 124: the field \<open>updated_compliance_score\<close> of the response is an \<open>int\<close>, which
  takes a whole number (or a bool) and nothing else.
\<close>

definition is_whole :: "json \<Rightarrow> bool" where
  "is_whole j = (case num_of j of Inl e \<Rightarrow> False | Inr v \<Rightarrow> v = of_int \<lfloor>v\<rfloor>)"

text \<open>
  \<open>check_compliance\<close>. The advisory opinion \<open>ai\<close> is what
  \<open>gemini_service.analyze_compliance_data\<close> returned for this request; the historical
  query of lines 83-95 only builds that call's argument. The result is the store after
  the request and the response or the error. Every exception raised inside the
  \<open>try\<close> block becomes a 500: before \<open>db.commit()\<close> (line 112) the store is left as
  it was; the response is built after it (lines 120-125), so a score that the response
  does not take gives a 500 with the batch and the score already stored.
\<close>

definition check_compliance ::
  "database \<Rightarrow> ComplianceCheckRequest \<Rightarrow> json \<Rightarrow> database \<times> (error + ComplianceCheckResponse)" where
  "check_compliance db request ai =
     (case first_where (\<lambda>s. sup_id s = cc_supplier_id request) (suppliers db) of
        None \<Rightarrow> (db, Inl (HTTP 404))
      | Some supplier \<Rightarrow>
          let created_records =
                stage (next_id (compliance_records db)) (cc_supplier_id request) ai
                  (compliance_data request)
          in (case clamp_score ai (compliance_score supplier) of
                Inl e \<Rightarrow> (db, Inl (HTTP 500))
              | Inr score \<Rightarrow>
                  let committed =
                        db\<lparr>suppliers :=
                             update_first (\<lambda>s. sup_id s = cc_supplier_id request)
                               (\<lambda>s. s\<lparr>compliance_score := score\<rparr>) (suppliers db),
                           compliance_records := compliance_records db @ created_records\<rparr>
                  in if is_whole score then
                       (committed, Inr \<lparr>cc_records = created_records, cc_ai_analysis = ai,
                                        updated_compliance_score = score\<rparr>)
                     else (committed, Inl (HTTP 500))))"

text \<open>\<open>create_compliance_record\<close> (lines 167-195): the row is the request, as it is.\<close>

definition create_compliance_record ::
  "database \<Rightarrow> int \<Rightarrow> ComplianceRecordCreate \<Rightarrow> error + (database \<times> ComplianceRecordModel)" where
  "create_compliance_record db sid record =
     (case first_where (\<lambda>s. sup_id s = sid) (suppliers db) of
        None \<Rightarrow> Inl (HTTP 404)
      | Some supplier \<Rightarrow>
          let db_record =
                \<lparr>metric = metric record, date_recorded = date_recorded record,
                 result = result record, expected_value = expected_value record,
                 status = status record, supplier_id = sid,
                 rec_id = next_id (compliance_records db),
                 ai_analysis = None, weather_data = None, weather_justification = None\<rparr>
          in Inr (db\<lparr>compliance_records := compliance_records db @ [db_record]\<rparr>, db_record))"

section \<open>Weather adjudication (routers/suppliers.py, check\_weather\_impact)\<close>

text \<open>
  \<open>get_historical_weather\<close> (weather\_service.py, lines 51-90): without an API key, or
  when the request fails or is answered with another status than 200, the mock data.
  \<open>fetch\<close> is the HTTP request: \<open>None\<close> when it failed.
\<close>

definition get_historical_weather ::
  "(real \<Rightarrow> real \<Rightarrow> string \<Rightarrow> json option) option \<Rightarrow> real \<Rightarrow> real \<Rightarrow> string \<Rightarrow> json" where
  "get_historical_weather api la lo d =
     (case api of
        None \<Rightarrow> mock_weather_data
      | Some fetch \<Rightarrow> (case fetch la lo d of None \<Rightarrow> mock_weather_data | Some j \<Rightarrow> j))"

text \<open>Lines 203-205 and 217-219.\<close>

definition excuse :: "analysis \<Rightarrow> ComplianceRecordModel \<Rightarrow> ComplianceRecordModel" where
  "excuse wa r =
     r\<lparr>status := ''excused-weather'', weather_data := Some wa,
       weather_justification := Some (justification wa)\<rparr>"

text \<open>
  The collaborators of the router: \<open>geocode\<close> is \<open>get_coordinates_from_country\<close>,
  \<open>strptime\<close> is \<open>datetime.strptime(_, "%Y-%m-%d").date()\<close> with \<open>None\<close> for
  ValueError, \<open>api\<close> is the weather API and \<open>fmt\<close> prints a number.
\<close>

record collaborators =
  geocode :: "string \<Rightarrow> (real \<times> real) option"
  strptime :: "string \<Rightarrow> date option"
  api :: "(real \<Rightarrow> real \<Rightarrow> string \<Rightarrow> json option) option"
  fmt_number :: "json \<Rightarrow> string"

text \<open>Lines 154-164.\<close>

definition coordinates :: "collaborators \<Rightarrow> WeatherImpactRequest \<Rightarrow> Supplier \<Rightarrow> error + (real \<times> real)" where
  "coordinates c request supplier =
     (case (lat request, lon request) of
        (Some la, Some lo) \<Rightarrow> Inr (la, lo)
      | _ \<Rightarrow> (case geocode c (country supplier) of
                Some p \<Rightarrow> Inr p
              | None \<Rightarrow> Inl (HTTP 400)))"

text \<open>
  Lines 186-226: the rows after the update, and the list \<open>updated_records\<close>. The branch
  is taken on the truth value of \<open>request.compliance_record_id\<close>.
\<close>

definition is_target :: "int \<Rightarrow> date \<Rightarrow> ComplianceRecordModel \<Rightarrow> bool" where
  "is_target sid d r =
     (supplier_id r = sid \<and> date_recorded r = d \<and> status r = ''non-compliant'')"

definition update_records ::
  "analysis \<Rightarrow> WeatherImpactRequest \<Rightarrow> date \<Rightarrow> ComplianceRecordModel list
     \<Rightarrow> error + (ComplianceRecordModel list \<times> ComplianceRecordModel list)" where
  "update_records wa request d rows =
     (if compliance_record_id request \<noteq> None \<and> compliance_record_id request \<noteq> Some 0 then
        (let p = (\<lambda>r. Some (rec_id r) = compliance_record_id request
                        \<and> supplier_id r = wi_supplier_id request)
         in (case first_where p rows of
               None \<Rightarrow> Inl (HTTP 404)
             | Some record \<Rightarrow>
                 if has_adverse_weather wa \<and> status record = ''non-compliant'' then
                   Inr (update_first p (excuse wa) rows, [excuse wa record])
                 else Inr (rows, [])))
      else
        (let p = is_target (wi_supplier_id request) d
         in if has_adverse_weather wa then
              Inr (map (\<lambda>r. if p r then excuse wa r else r) rows,
                   map (excuse wa) (filter p rows))
            else Inr (rows, [])))"

text \<open>
  \<open>check_weather_impact\<close>. The result is the store after the request, whether
  \<open>db.commit()\<close> ran (line 224), and the response. An exception of the detector is
  not caught by the router.
\<close>

definition check_weather_impact ::
  "collaborators \<Rightarrow> database \<Rightarrow> WeatherImpactRequest
     \<Rightarrow> error + (database \<times> bool \<times> WeatherImpactResponse)" where
  "check_weather_impact c db request =
     (case first_where (\<lambda>s. sup_id s = wi_supplier_id request) (suppliers db) of
        None \<Rightarrow> Inl (HTTP 404)
      | Some supplier \<Rightarrow>
          seq (coordinates c request supplier) (\<lambda>(la, lo).
            (case strptime c (delivery_date request) of
               None \<Rightarrow> Inl (HTTP 400)
             | Some d \<Rightarrow>
                 let wdata = get_historical_weather (api c) la lo (delivery_date request)
                 in if \<not> truthy wdata then Inl (HTTP 503)
                    else
                      seq (analyze_adverse_weather (fmt_number c) wdata) (\<lambda>wa.
                      seq (update_records wa request d (compliance_records db)) (\<lambda>(rows, updated).
                        Inr (db\<lparr>compliance_records := rows\<rparr>,
                             updated \<noteq> [],
                             \<lparr>weather_analysis = wa, wi_justification = justification wa,
                              status_updated = length updated > 0,
                              updated_records = updated\<rparr>))))))"

text \<open>The store after a request: unchanged when the request failed.\<close>

definition db_after :: "database \<Rightarrow> error + (database \<times> 'a) \<Rightarrow> database" where
  "db_after db r = (case r of Inl e \<Rightarrow> db | Inr (db', x) \<Rightarrow> db')"

section \<open>Example data\<close>

definition example_supplier :: Supplier where
  "example_supplier = \<lparr>sup_id = 1, name = ''Acme'', country = ''India'', compliance_score = JNum 90\<rparr>"

definition example_db :: database where
  "example_db = \<lparr>suppliers = [example_supplier], compliance_records = []\<rparr>"

definition late_delivery :: ComplianceRecordBase where
  "late_delivery = \<lparr>metric = ''Delivery_Time'', date_recorded = Date 2024 3 5, result = 6,
     expected_value = Some 5, status = ''compliant''\<rparr>"

definition good_quality :: ComplianceRecordBase where
  "good_quality = \<lparr>metric = ''quality_score'', date_recorded = Date 2024 3 5, result = 97,
     expected_value = Some 95, status = ''non-compliant''\<rparr>"

definition example_batch :: ComplianceCheckRequest where
  "example_batch = \<lparr>cc_supplier_id = 1, compliance_data = [late_delivery, good_quality]\<rparr>"

definition example_opinion :: json where
  "example_opinion = JObj [(''risk_assessment'', JStr ''low''), (''compliance_score_suggestion'', JNum 150)]"

definition silent_opinion :: json where
  "silent_opinion = JObj [(''risk_assessment'', JStr ''low'')]"

definition fractional_opinion :: json where
  "fractional_opinion = JObj [(''compliance_score_suggestion'', JNum 85.5)]"

definition single_batch :: ComplianceCheckRequest where
  "single_batch = \<lparr>cc_supplier_id = 1, compliance_data = [late_delivery]\<rparr>"

definition odd_metric :: ComplianceRecordBase where
  "odd_metric = \<lparr>metric = ''defect_rate'', date_recorded = Date 2024 3 5, result = 4,
     expected_value = Some 2, status = ''compliant''\<rparr>"

definition no_expectation :: ComplianceRecordBase where
  "no_expectation = \<lparr>metric = ''delivery_time'', date_recorded = Date 2024 3 6, result = 9,
     expected_value = None, status = ''compliant''\<rparr>"

definition fallback_batch :: ComplianceCheckRequest where
  "fallback_batch = \<lparr>cc_supplier_id = 1, compliance_data = [odd_metric, no_expectation]\<rparr>"

definition harsh_opinion :: json where
  "harsh_opinion = JObj [(''compliance_score_suggestion'', JNum (- 20))]"

definition fallback_rows :: "ComplianceRecordModel list" where
  "fallback_rows =
     [\<lparr>metric = ''defect_rate'', date_recorded = Date 2024 3 5, result = 4,
       expected_value = Some 2, status = ''compliant'', supplier_id = 1, rec_id = 1,
       ai_analysis = Some harsh_opinion, weather_data = None, weather_justification = None\<rparr>,
      \<lparr>metric = ''delivery_time'', date_recorded = Date 2024 3 6, result = 9,
       expected_value = None, status = ''compliant'', supplier_id = 1, rec_id = 2,
       ai_analysis = Some harsh_opinion, weather_data = None, weather_justification = None\<rparr>]"

text \<open>
  For the examples: a printer of numbers that writes a whole number the way Python
  writes an int, and a reply of the weather API with one observation.
\<close>

fun decimal :: "nat \<Rightarrow> string" where
  "decimal n = (if n < 10 then [char_of (48 + n)] else decimal (n div 10) @ [char_of (48 + n mod 10)])"

declare decimal.simps [simp del]

definition print_number :: "json \<Rightarrow> string" where
  "print_number j =
     (case j of
        JNum x \<Rightarrow> if 0 \<le> x \<and> x = real (nat \<lfloor>x\<rfloor>) then decimal (nat \<lfloor>x\<rfloor>) else ''?''
      | _ \<Rightarrow> ''?'')"

definition observation :: "string \<Rightarrow> string \<Rightarrow> (string \<times> json) list \<Rightarrow> json" where
  "observation m d extra =
     JObj [(''data'', JArr [JObj ((''weather'', JArr [JObj [(''main'', JStr m), (''description'', JStr d)]]) # extra)])]"





definition fog_finding :: finding where
  "fog_finding = \<lparr>cond_type = ''fog'', description = ''fog'', main = Some ''fog'',
                   measurement = None\<rparr>"

definition wind_finding :: finding where
  "wind_finding = \<lparr>cond_type = ''strong_wind'', description = ''Strong winds: 20 m/s'',
                    main = None, measurement = Some (JNum 20)\<rparr>"

text \<open>
  The amount as C10 words it: the 1h value when that value is nonzero and
  otherwise the 3h value, 0 when absent.
\<close>

definition claimed_amount :: "real option \<Rightarrow> real option \<Rightarrow> real" where
  "claimed_amount one three =
     (case one of
        Some a \<Rightarrow> if a \<noteq> 0 then a else (case three of Some b \<Rightarrow> b | None \<Rightarrow> 0)
      | None \<Rightarrow> (case three of Some b \<Rightarrow> b | None \<Rightarrow> 0))"

definition drizzle_report :: json where
  "drizzle_report =
     observation ''Rain'' ''moderate rain''
       [(''rain'', JObj [(''1h'', JNum 0), (''3h'', JNum 12)]), (''wind_speed'', JNum 4)]"

definition drizzle_analysis :: analysis where
  "drizzle_analysis =
     \<lparr>has_adverse_weather = True,
      conditions = [\<lparr>cond_type = ''heavy_rain'', description = ''Heavy rainfall: 12mm'',
                     main = None, measurement = Some (JNum 12)\<rparr>],
      severity = ''low'',
      justification = ''Delivery delay justified due to adverse weather: Heavy rainfall: 12mm. Weather conditions: moderate rain.'',
      weather_description = Some ''moderate rain'', temperature = Some JNull,
      wind_speed = Some (JNum 4), mock_data = Some (JBool False)\<rparr>"

definition sleet_report :: json where
  "sleet_report =
     observation ''Clouds'' ''overcast clouds''
       [(''rain'', JObj []), (''snow'', JObj [(''3h'', JNum 2)])]"

definition sleet_analysis :: analysis where
  "sleet_analysis =
     \<lparr>has_adverse_weather = True,
      conditions = [\<lparr>cond_type = ''snow'', description = ''Snowfall: 2mm'',
                     main = None, measurement = Some (JNum 2)\<rparr>],
      severity = ''low'',
      justification = ''Delivery delay justified due to adverse weather: Snowfall: 2mm. Weather conditions: overcast clouds.'',
      weather_description = Some ''overcast clouds'', temperature = Some JNull,
      wind_speed = Some (JNum 0), mock_data = Some (JBool False)\<rparr>"

definition late_row :: ComplianceRecordModel where
  "late_row =
     \<lparr>metric = ''delivery_time'', date_recorded = Date 2024 3 5, result = 6,
      expected_value = Some 5, status = ''non-compliant'', supplier_id = 1, rec_id = 1,
      ai_analysis = None, weather_data = None, weather_justification = None\<rparr>"

definition excused_row :: ComplianceRecordModel where
  "excused_row =
     \<lparr>metric = ''delivery_time'', date_recorded = Date 2024 3 5, result = 6,
      expected_value = Some 5, status = ''excused-weather'', supplier_id = 1, rec_id = 1,
      ai_analysis = None, weather_data = Some drizzle_analysis,
      weather_justification = Some ''Delivery delay justified due to adverse weather: Heavy rainfall: 12mm. Weather conditions: moderate rain.''\<rparr>"

definition stored_db :: database where
  "stored_db = \<lparr>suppliers = [example_supplier], compliance_records = [late_row]\<rparr>"

definition excused_db :: database where
  "excused_db = \<lparr>suppliers = [example_supplier], compliance_records = [excused_row]\<rparr>"

definition rainy_day :: collaborators where
  "rainy_day =
     \<lparr>geocode = (\<lambda>country. None),
      strptime = (\<lambda>s. if s = ''2024-03-05'' then Some (Date 2024 3 5) else None),
      api = Some (\<lambda>la lo d. Some drizzle_report),
      fmt_number = print_number\<rparr>"

definition impact_request :: WeatherImpactRequest where
  "impact_request =
     \<lparr>wi_supplier_id = 1, compliance_record_id = None, lat = Some 19, lon = Some 73,
      delivery_date = ''2024-03-05''\<rparr>"

definition zero_id_request :: WeatherImpactRequest where
  "zero_id_request =
     \<lparr>wi_supplier_id = 1, compliance_record_id = Some 0, lat = Some 19, lon = Some 73,
      delivery_date = ''2024-03-05''\<rparr>"

definition excused_on_arrival :: ComplianceRecordCreate where
  "excused_on_arrival =
     \<lparr>metric = ''delivery_time'', date_recorded = Date 2024 3 7, result = 8,
      expected_value = Some 5, status = ''excused-weather'', supplier_id = 1\<rparr>"

definition arrived_row :: ComplianceRecordModel where
  "arrived_row =
     \<lparr>metric = ''delivery_time'', date_recorded = Date 2024 3 7, result = 8,
      expected_value = Some 5, status = ''excused-weather'', supplier_id = 1, rec_id = 1,
      ai_analysis = None, weather_data = None, weather_justification = None\<rparr>"

section \<open>Ingestion: classification and score\<close>

lemma stage_length: "length (stage n sid ai xs) = length xs"
  by (induction xs arbitrary: n) simp_all

lemma stage_status:
  "i < length xs \<Longrightarrow> status (stage n sid ai xs ! i) = status_value (xs ! i)"
proof (induction xs arbitrary: n i)
  case Nil
  then show ?case by simp
next
  case (Cons x xs)
  then show ?case by (cases i) simp_all
qed

lemma check_compliance_records:
  assumes "check_compliance db request ai = (db', Inr resp)"
  shows "cc_records resp =
           stage (next_id (compliance_records db)) (cc_supplier_id request) ai (compliance_data request)"
    and "compliance_records db' = compliance_records db @ cc_records resp"
  using assms
  by (auto simp: check_compliance_def Let_def split: option.splits sum.splits if_splits)

lemma check_compliance_status:
  assumes "check_compliance db request ai = (db', Inr resp)"
    and "i < length (compliance_data request)"
  shows "status (cc_records resp ! i) = status_value (compliance_data request ! i)"
  using assms by (simp add: check_compliance_records(1) stage_status)

text \<open>Whatever the outcome, the rows of the store are the old ones or the old ones and the batch.\<close>

lemma check_compliance_store:
  assumes "check_compliance db request ai = (db', out)"
  shows "compliance_records db' = compliance_records db
       \<or> compliance_records db' = compliance_records db
            @ stage (next_id (compliance_records db)) (cc_supplier_id request) ai
                (compliance_data request)"
  using assms
  by (auto simp: check_compliance_def Let_def split: option.splits sum.splits if_splits)

lemma first_where_update_first:
  "(\<And>x. p (f x) = p x) \<Longrightarrow>
   first_where p (update_first p f xs) = map_option f (first_where p xs)"
  by (induction xs) (simp_all add: first_where_def)

text \<open>The clamp of lines 108-109 returns exactly when the suggestion, or the default, is a number.\<close>

lemma clamp_score_number:
  assumes "num_of (case map_of kv ''compliance_score_suggestion'' of
                     Some x \<Rightarrow> x | None \<Rightarrow> current) = Inr v"
  shows "clamp_score (JObj kv) current =
           Inr (if v < 100 then
                  (if 0 < v then
                     (case map_of kv ''compliance_score_suggestion'' of
                        Some x \<Rightarrow> x | None \<Rightarrow> current)
                   else JNum 0)
                else JNum 100)"
  using assms
  by (auto simp: clamp_score_def seq_def py_min_def py_max_def split: option.splits)

lemma clamp_score_value:
  assumes "clamp_score ai current = Inr score"
  shows "\<exists>kv v. ai = JObj kv
           \<and> num_of (case map_of kv ''compliance_score_suggestion'' of
                       Some x \<Rightarrow> x | None \<Rightarrow> current) = Inr v
           \<and> num_of score = Inr (max 0 (min 100 v))
           \<and> (v > 100 \<longrightarrow> score = JNum 100) \<and> (v < 0 \<longrightarrow> score = JNum 0)"
proof (cases ai)
  case (JObj kv)
  let ?s = "case map_of kv ''compliance_score_suggestion'' of Some x \<Rightarrow> x | None \<Rightarrow> current"
  from assms JObj have get: "seq (py_min 100 ?s) (py_max 0) = Inr score"
    by (simp add: clamp_score_def seq_def split: option.splits)
  then obtain v where v: "num_of ?s = Inr v"
    by (cases "num_of ?s") (simp_all add: seq_def py_min_def)
  with get have "py_max 0 (if v < 100 then ?s else JNum 100) = Inr score"
    by (simp add: seq_def py_min_def)
  with v have "score = (if v < 100 then (if v > 0 then ?s else JNum 0) else JNum 100)"
    by (auto simp: py_max_def split: if_splits)
  with v have "num_of score = Inr (max 0 (min 100 v))
               \<and> (v > 100 \<longrightarrow> score = JNum 100) \<and> (v < 0 \<longrightarrow> score = JNum 0)"
    by auto
  with JObj v show ?thesis by blast
qed (use assms in \<open>simp_all add: clamp_score_def seq_def\<close>)

lemma example_batch_result:
  "check_compliance example_db example_batch example_opinion =
     (\<lparr>suppliers = [example_supplier\<lparr>compliance_score := JNum 100\<rparr>],
       compliance_records = stage 1 1 example_opinion [late_delivery, good_quality]\<rparr>,
      Inr \<lparr>cc_records = stage 1 1 example_opinion [late_delivery, good_quality],
           cc_ai_analysis = example_opinion, updated_compliance_score = JNum 100\<rparr>)"
  by code_simp

lemma fallback_batch_result:
  "check_compliance example_db fallback_batch harsh_opinion =
     (\<lparr>suppliers = [example_supplier\<lparr>compliance_score := JNum 0\<rparr>],
       compliance_records = fallback_rows\<rparr>,
      Inr \<lparr>cc_records = fallback_rows,
           cc_ai_analysis = harsh_opinion, updated_compliance_score = JNum 0\<rparr>)"
  by code_simp



text \<open>
  C6. Without an expected value the classification is the status the caller supplied,
  whatever the metric and the result; with an expected value and a metric name that is
  none of the four recognised names (in lower case) it is the supplied status too. The
  rows an ingested batch creates for such records carry that status.
\<close>

theorem fallback_status_verbatim:
  "status_value \<lparr>metric = m, date_recorded = d, result = x, expected_value = None,
                  status = fallback\<rparr> = fallback
   \<and> (py_lower m \<notin> {''delivery_time'', ''lead_time'', ''quality_score'', ''quality_rating''} \<longrightarrow>
        status_value \<lparr>metric = m, date_recorded = d, result = x, expected_value = Some e,
                       status = fallback\<rparr> = fallback)
   \<and> (check_compliance db request ai = (db', Inr resp) \<and> i < length (compliance_data request)
        \<and> (expected_value (compliance_data request ! i) = None
           \<or> py_lower (metric (compliance_data request ! i))
                \<notin> {''delivery_time'', ''lead_time'', ''quality_score'', ''quality_rating''}) \<longrightarrow>
        status (cc_records resp ! i) = status (compliance_data request ! i))"
proof -
  have "status (cc_records resp ! i) = status (compliance_data request ! i)"
    if ok: "check_compliance db request ai = (db', Inr resp)"
      and i: "i < length (compliance_data request)"
      and fb: "expected_value (compliance_data request ! i) = None
               \<or> py_lower (metric (compliance_data request ! i))
                    \<notin> {''delivery_time'', ''lead_time'', ''quality_score'', ''quality_rating''}"
  proof -
    have "status (cc_records resp ! i) = status_value (compliance_data request ! i)"
      using ok i by (rule check_compliance_status)
    with fb show ?thesis
      by (auto simp: status_value_def split: option.splits)
  qed
  then show ?thesis
    by (simp add: status_value_def)
qed

theorem fallback_status_verbatim_witness:
  "status_value odd_metric = ''compliant''
   \<and> status (fallback_rows ! 0) = ''compliant''
   \<and> status (fallback_rows ! 1) = ''compliant''"
proof -
  have m: "py_lower ''defect_rate''
             \<notin> {''delivery_time'', ''lead_time'', ''quality_score'', ''quality_rating''}"
    by code_simp
  note inst = fallback_status_verbatim [of "''defect_rate''" "Date 2024 3 5" 4 "''compliant''" 2
        example_db fallback_batch harsh_opinion
        "\<lparr>suppliers = [example_supplier\<lparr>compliance_score := JNum 0\<rparr>],
           compliance_records = fallback_rows\<rparr>"
        "\<lparr>cc_records = fallback_rows,
           cc_ai_analysis = harsh_opinion, updated_compliance_score = JNum 0\<rparr>"]
  have a: "status_value odd_metric = ''compliant''"
    using inst [of 0] m by (simp add: odd_metric_def)
  have b: "status (fallback_rows ! 0) = ''compliant''"
    using inst [of 0] m fallback_batch_result
    by (simp add: fallback_batch_def odd_metric_def)
  have c: "status (fallback_rows ! 1) = ''compliant''"
    using inst [of 1] fallback_batch_result
    by (simp add: fallback_batch_def no_expectation_def)
  show ?thesis using a b c by simp
qed

text \<open>
  C8. When the supplier exists and the suggestion of the opinion (the supplier's score
  before the batch when the key is absent) is a number \<open>v\<close>, the run stores the batch and
  gives the supplier the clamped score, whose value is \<open>max 0 (min 100 v)\<close>; it answers
  with that score when it is a whole number and with a 500 otherwise. Conversely, after
  a batch that was answered the opinion is a dict, the suggestion or the prior score is
  a number \<open>v\<close>, and the score of the supplier in the store, which is the score of the
  response, has the value \<open>max 0 (min 100 v)\<close>: 100 for 150 and 0 for -20.
\<close>

theorem score_is_clamped_suggestion:
  "(first_where (\<lambda>s. sup_id s = cc_supplier_id request) (suppliers db) = Some supplier
      \<and> num_of (case map_of kv ''compliance_score_suggestion'' of
                  Some x \<Rightarrow> x | None \<Rightarrow> compliance_score supplier) = Inr v \<longrightarrow>
    (\<exists>score.
        score = (if v < 100 then
                   (if 0 < v then
                      (case map_of kv ''compliance_score_suggestion'' of
                         Some x \<Rightarrow> x | None \<Rightarrow> compliance_score supplier)
                    else JNum 0)
                 else JNum 100)
      \<and> num_of score = Inr (max 0 (min 100 v))
      \<and> first_where (\<lambda>s. sup_id s = cc_supplier_id request)
            (suppliers (fst (check_compliance db request (JObj kv))))
          = Some (supplier\<lparr>compliance_score := score\<rparr>)
      \<and> compliance_records (fst (check_compliance db request (JObj kv)))
          = compliance_records db
              @ stage (next_id (compliance_records db)) (cc_supplier_id request) (JObj kv)
                  (compliance_data request)
      \<and> snd (check_compliance db request (JObj kv))
          = (if is_whole score then
               Inr \<lparr>cc_records = stage (next_id (compliance_records db)) (cc_supplier_id request)
                                     (JObj kv) (compliance_data request),
                    cc_ai_analysis = JObj kv, updated_compliance_score = score\<rparr>
             else Inl (HTTP 500))))
   \<and> (check_compliance db request ai = (db', Inr resp) \<longrightarrow>
        (\<exists>kv supplier v score.
           ai = JObj kv
         \<and> first_where (\<lambda>s. sup_id s = cc_supplier_id request) (suppliers db) = Some supplier
         \<and> num_of (case map_of kv ''compliance_score_suggestion'' of
                     Some x \<Rightarrow> x | None \<Rightarrow> compliance_score supplier) = Inr v
         \<and> first_where (\<lambda>s. sup_id s = cc_supplier_id request) (suppliers db')
             = Some (supplier\<lparr>compliance_score := score\<rparr>)
         \<and> updated_compliance_score resp = score
         \<and> num_of score = Inr (max 0 (min 100 v))
         \<and> (v = 150 \<longrightarrow> score = JNum 100) \<and> (v = - 20 \<longrightarrow> score = JNum 0)))"
proof -
  have total: "\<exists>score.
        score = (if v < 100 then
                   (if 0 < v then
                      (case map_of kv ''compliance_score_suggestion'' of
                         Some x \<Rightarrow> x | None \<Rightarrow> compliance_score supplier)
                    else JNum 0)
                 else JNum 100)
      \<and> num_of score = Inr (max 0 (min 100 v))
      \<and> first_where (\<lambda>s. sup_id s = cc_supplier_id request)
            (suppliers (fst (check_compliance db request (JObj kv))))
          = Some (supplier\<lparr>compliance_score := score\<rparr>)
      \<and> compliance_records (fst (check_compliance db request (JObj kv)))
          = compliance_records db
              @ stage (next_id (compliance_records db)) (cc_supplier_id request) (JObj kv)
                  (compliance_data request)
      \<and> snd (check_compliance db request (JObj kv))
          = (if is_whole score then
               Inr \<lparr>cc_records = stage (next_id (compliance_records db)) (cc_supplier_id request)
                                     (JObj kv) (compliance_data request),
                    cc_ai_analysis = JObj kv, updated_compliance_score = score\<rparr>
             else Inl (HTTP 500))"
    if sup: "first_where (\<lambda>s. sup_id s = cc_supplier_id request) (suppliers db) = Some supplier"
      and num: "num_of (case map_of kv ''compliance_score_suggestion'' of
                  Some x \<Rightarrow> x | None \<Rightarrow> compliance_score supplier) = Inr v"
  proof -
    let ?s = "case map_of kv ''compliance_score_suggestion'' of
                Some x \<Rightarrow> x | None \<Rightarrow> compliance_score supplier"
    let ?score = "if v < 100 then (if 0 < v then ?s else JNum 0) else JNum 100"
    have cl: "clamp_score (JObj kv) (compliance_score supplier) = Inr ?score"
      using num by (rule clamp_score_number)
    have n: "num_of ?score = Inr (max 0 (min 100 v))"
      using num by auto
    have st: "suppliers (fst (check_compliance db request (JObj kv)))
                = update_first (\<lambda>s. sup_id s = cc_supplier_id request)
                    (\<lambda>s. s\<lparr>compliance_score := ?score\<rparr>) (suppliers db)"
      by (simp add: check_compliance_def sup cl Let_def)
    have f: "first_where (\<lambda>s. sup_id s = cc_supplier_id request)
            (suppliers (fst (check_compliance db request (JObj kv))))
          = Some (supplier\<lparr>compliance_score := ?score\<rparr>)"
      unfolding st by (subst first_where_update_first) (simp_all add: sup)
    have rows: "compliance_records (fst (check_compliance db request (JObj kv)))
          = compliance_records db
              @ stage (next_id (compliance_records db)) (cc_supplier_id request) (JObj kv)
                  (compliance_data request)"
      by (simp add: check_compliance_def sup cl Let_def)
    have out: "snd (check_compliance db request (JObj kv))
          = (if is_whole ?score then
               Inr \<lparr>cc_records = stage (next_id (compliance_records db)) (cc_supplier_id request)
                                     (JObj kv) (compliance_data request),
                    cc_ai_analysis = JObj kv, updated_compliance_score = ?score\<rparr>
             else Inl (HTTP 500))"
      by (simp add: check_compliance_def sup cl Let_def)
    from n f rows out show ?thesis by blast
  qed
  have partial: "\<exists>kv supplier v score.
           ai = JObj kv
         \<and> first_where (\<lambda>s. sup_id s = cc_supplier_id request) (suppliers db) = Some supplier
         \<and> num_of (case map_of kv ''compliance_score_suggestion'' of
                     Some x \<Rightarrow> x | None \<Rightarrow> compliance_score supplier) = Inr v
         \<and> first_where (\<lambda>s. sup_id s = cc_supplier_id request) (suppliers db')
             = Some (supplier\<lparr>compliance_score := score\<rparr>)
         \<and> updated_compliance_score resp = score
         \<and> num_of score = Inr (max 0 (min 100 v))
         \<and> (v = 150 \<longrightarrow> score = JNum 100) \<and> (v = - 20 \<longrightarrow> score = JNum 0)"
    if ok: "check_compliance db request ai = (db', Inr resp)"
  proof -
    from ok obtain supplier where
      sup: "first_where (\<lambda>s. sup_id s = cc_supplier_id request) (suppliers db) = Some supplier"
      by (cases "first_where (\<lambda>s. sup_id s = cc_supplier_id request) (suppliers db)")
         (simp_all add: check_compliance_def)
    with ok obtain score where
      sc: "clamp_score ai (compliance_score supplier) = Inr score"
      and db': "suppliers db' = update_first (\<lambda>s. sup_id s = cc_supplier_id request)
                  (\<lambda>s. s\<lparr>compliance_score := score\<rparr>) (suppliers db)"
      and resp: "updated_compliance_score resp = score"
      by (cases "clamp_score ai (compliance_score supplier)")
         (auto simp: check_compliance_def Let_def split: if_splits)
    have "first_where (\<lambda>s. sup_id s = cc_supplier_id request) (suppliers db')
            = Some (supplier\<lparr>compliance_score := score\<rparr>)"
      unfolding db' by (subst first_where_update_first) (simp_all add: sup)
    with clamp_score_value [OF sc] sup resp show ?thesis
      by fastforce
  qed
  from total partial show ?thesis by blast
qed

text \<open>
  Runs on the example store, whose supplier has the score 90: a suggestion of 150 stores
  100, one of -20 stores 0, an opinion without a suggestion keeps 90 and is answered with
  90, and a suggestion of 85.5 stores 85.5 and is answered with a 500.
\<close>

theorem score_is_clamped_suggestion_witness:
  "first_where (\<lambda>s. sup_id s = 1)
      (suppliers (fst (check_compliance example_db example_batch example_opinion)))
     = Some (example_supplier\<lparr>compliance_score := JNum 100\<rparr>)
   \<and> first_where (\<lambda>s. sup_id s = 1)
      (suppliers (fst (check_compliance example_db fallback_batch harsh_opinion)))
     = Some (example_supplier\<lparr>compliance_score := JNum 0\<rparr>)
   \<and> first_where (\<lambda>s. sup_id s = 1)
      (suppliers (fst (check_compliance example_db single_batch silent_opinion)))
     = Some (example_supplier\<lparr>compliance_score := JNum 90\<rparr>)
   \<and> map_sum id updated_compliance_score
        (snd (check_compliance example_db single_batch silent_opinion)) = Inr (JNum 90)
   \<and> first_where (\<lambda>s. sup_id s = 1)
      (suppliers (fst (check_compliance example_db single_batch fractional_opinion)))
     = Some (example_supplier\<lparr>compliance_score := JNum 85.5\<rparr>)
   \<and> snd (check_compliance example_db single_batch fractional_opinion) = Inl (HTTP 500)
   \<and> num_of (updated_compliance_score
          \<lparr>cc_records = stage 1 1 example_opinion [late_delivery, good_quality],
           cc_ai_analysis = example_opinion, updated_compliance_score = JNum 100\<rparr>)
       = Inr (max 0 (min 100 150))"
proof -
  have sup: "first_where (\<lambda>s. sup_id s = cc_supplier_id rq) (suppliers example_db)
               = Some example_supplier" if "cc_supplier_id rq = 1" for rq
    using that by (simp add: first_where_def example_db_def example_supplier_def)
  have a: "first_where (\<lambda>s. sup_id s = 1)
      (suppliers (fst (check_compliance example_db example_batch example_opinion)))
     = Some (example_supplier\<lparr>compliance_score := JNum 100\<rparr>)"
    using score_is_clamped_suggestion [where db = example_db and request = example_batch
        and supplier = example_supplier and v = 150
        and kv = "[(''risk_assessment'', JStr ''low''), (''compliance_score_suggestion'', JNum 150)]"]
      sup [of example_batch]
    by (simp add: example_batch_def example_opinion_def)
  have b: "first_where (\<lambda>s. sup_id s = 1)
      (suppliers (fst (check_compliance example_db fallback_batch harsh_opinion)))
     = Some (example_supplier\<lparr>compliance_score := JNum 0\<rparr>)"
    using score_is_clamped_suggestion [where db = example_db and request = fallback_batch
        and supplier = example_supplier and v = "- 20"
        and kv = "[(''compliance_score_suggestion'', JNum (- 20))]"]
      sup [of fallback_batch]
    by (simp add: fallback_batch_def harsh_opinion_def)
  have c: "first_where (\<lambda>s. sup_id s = 1)
      (suppliers (fst (check_compliance example_db single_batch silent_opinion)))
     = Some (example_supplier\<lparr>compliance_score := JNum 90\<rparr>)"
    using score_is_clamped_suggestion [where db = example_db and request = single_batch
        and supplier = example_supplier and v = 90
        and kv = "[(''risk_assessment'', JStr ''low'')]"]
      sup [of single_batch]
    by (simp add: single_batch_def silent_opinion_def example_supplier_def)
  have w90: "is_whole (JNum 90)"
    by (simp add: is_whole_def)
  have c': "map_sum id updated_compliance_score
        (snd (check_compliance example_db single_batch silent_opinion)) = Inr (JNum 90)"
    using score_is_clamped_suggestion [where db = example_db and request = single_batch
        and supplier = example_supplier and v = 90
        and kv = "[(''risk_assessment'', JStr ''low'')]"]
      sup [of single_batch] w90
    by (simp add: single_batch_def silent_opinion_def example_supplier_def)
  note fr = score_is_clamped_suggestion [where db = example_db and request = single_batch
        and supplier = example_supplier and v = "85.5"
        and kv = "[(''compliance_score_suggestion'', JNum 85.5)]"]
  have w: "\<not> is_whole (JNum 85.5)"
    by (simp add: is_whole_def)
  have d: "first_where (\<lambda>s. sup_id s = 1)
      (suppliers (fst (check_compliance example_db single_batch fractional_opinion)))
     = Some (example_supplier\<lparr>compliance_score := JNum 85.5\<rparr>)"
    using fr sup [of single_batch]
    by (simp add: single_batch_def fractional_opinion_def)
  have e: "snd (check_compliance example_db single_batch fractional_opinion) = Inl (HTTP 500)"
    using fr sup [of single_batch] w
    by (simp add: single_batch_def fractional_opinion_def)
  have f: "num_of (updated_compliance_score
          \<lparr>cc_records = stage 1 1 example_opinion [late_delivery, good_quality],
           cc_ai_analysis = example_opinion, updated_compliance_score = JNum 100\<rparr>)
       = Inr (max 0 (min 100 150))"
    using score_is_clamped_suggestion [where db = example_db and request = example_batch
        and ai = example_opinion
        and db' = "\<lparr>suppliers = [example_supplier\<lparr>compliance_score := JNum 100\<rparr>],
           compliance_records = stage 1 1 example_opinion [late_delivery, good_quality]\<rparr>"
        and resp = "\<lparr>cc_records = stage 1 1 example_opinion [late_delivery, good_quality],
           cc_ai_analysis = example_opinion, updated_compliance_score = JNum 100\<rparr>"]
      example_batch_result
    by (auto simp: example_opinion_def example_batch_def example_db_def first_where_def
                   example_supplier_def)
  show ?thesis using a b c c' d e f by blast
qed

section \<open>The adverse-weather detector\<close>

lemma seq_Inr_iff: "seq m f = Inr y \<longleftrightarrow> (\<exists>x. m = Inr x \<and> f x = Inr y)"
  by (cases m) (simp_all add: seq_def)

lemma analyze_observation_parts:
  "analyze_observation fmt info mock = Inr r \<Longrightarrow>
   \<exists>d m rain snow rf sf speed wf.
           weather_text info ''description'' = Inr d
         \<and> weather_text info ''main'' = Inr m
         \<and> py_get info ''rain'' (JObj []) = Inr rain
         \<and> py_get info ''snow'' (JObj []) = Inr snow
         \<and> rain_findings fmt rain = Inr rf
         \<and> snow_findings fmt snow = Inr sf
         \<and> py_get info ''wind_speed'' (JNum 0) = Inr speed
         \<and> wind_findings fmt speed = Inr wf
         \<and> conditions r = keyword_findings d m @ rf @ sf @ wf
         \<and> has_adverse_weather r = (conditions r \<noteq> [])
         \<and> severity r = determine_severity (conditions r) d
         \<and> justification r = generate_justification (conditions r) d
         \<and> weather_description r = Some d"
  unfolding analyze_observation_def seq_Inr_iff Let_def
  by (elim exE conjE) (simp only: sum.inject, hypsubst, simp)



lemma first_observation:
  assumes "analyze_adverse_weather fmt wd = Inr r"
    and "py_index wd ''data'' = Inr (JArr (info # rest))"
  shows "\<exists>mock. analyze_observation fmt info mock = Inr r"
proof -
  from assms(2) obtain kv where wd: "wd = JObj kv" and d: "map_of kv ''data'' = Some (JArr (info # rest))"
    by (cases wd) (auto split: option.splits)
  then have "kv \<noteq> []" by auto
  with assms(1) wd d show ?thesis
    by (auto simp: analyze_adverse_weather_def seq_Inr_iff split: if_splits)
qed






text \<open>
  C2. On a reply whose observation array \<open>data\<close> is empty, line 127 raises
  IndexError: the guard of line 119 only covers a reply that is false or has no
  \<open>data\<close> key (lemma \<open>no_observation_array\<close>).
\<close>

theorem empty_observation_array_raises:
  "analyze_adverse_weather fmt (JObj [(''data'', JArr [])]) = Inl IndexError"
  by (simp add: analyze_adverse_weather_def seq_def)

lemma no_observation_array:
  "analyze_adverse_weather fmt JNull = Inr no_weather_data"
  "analyze_adverse_weather fmt (JObj []) = Inr no_weather_data"
  "map_of kv ''data'' = None \<Longrightarrow> analyze_adverse_weather fmt (JObj kv) = Inr no_weather_data"
  by (simp_all add: analyze_adverse_weather_def seq_def)

lemma category_titles:
  "py_title (replace_underscore ''thunderstorm'') = ''Thunderstorm''"
  "py_title (replace_underscore ''heavy_rain'') = ''Heavy Rain''"
  "py_title (replace_underscore ''snow'') = ''Snow''"
  "py_title (replace_underscore ''fog'') = ''Fog''"
  "py_title (replace_underscore ''extreme_weather'') = ''Extreme Weather''"
  "py_title (replace_underscore ''strong_wind'') = ''Strong Wind''"
  by code_simp+

text \<open>
  C5. The justification is the fixed sentence for no findings, the singular sentence for
  one finding, and for two or more the sentence for multiple conditions, in which the
  descriptions but the last are joined by a comma and a space and followed by
  \<open>and\<close> and the last one. The description of a finding is its description text when
  it carries a measurement and else its category name with underscores replaced by
  spaces, in title case.
\<close>

theorem justification_text:
  "generate_justification [] d =
     ''No adverse weather conditions detected that would impact delivery.''
   \<and> generate_justification [c] d =
       ''Delivery delay justified due to adverse weather: '' @ condition_description c
         @ ''. Weather conditions: '' @ d @ ''.''
   \<and> (cs \<noteq> [] \<longrightarrow>
        generate_justification (cs @ [c]) d =
          ''Delivery delay justified due to multiple adverse weather conditions: ''
            @ py_join '', '' (map condition_description cs) @ '' and '' @ condition_description c
            @ ''. Weather conditions: '' @ d @ ''.'')
   \<and> condition_description c =
       (if measurement c = None then py_title (replace_underscore (cond_type c))
        else description c)
   \<and> py_title (replace_underscore ''heavy_rain'') = ''Heavy Rain''
   \<and> py_title (replace_underscore ''extreme_weather'') = ''Extreme Weather''
   \<and> py_join '', '' [x, y, z] = x @ '', '' @ y @ '', '' @ z"
proof -
  have one: "generate_justification [c] d =
       ''Delivery delay justified due to adverse weather: '' @ condition_description c
         @ ''. Weather conditions: '' @ d @ ''.''"
    by (simp add: generate_justification_def)
  have many: "generate_justification (cs @ [c]) d =
          ''Delivery delay justified due to multiple adverse weather conditions: ''
            @ py_join '', '' (map condition_description cs) @ '' and '' @ condition_description c
            @ ''. Weather conditions: '' @ d @ ''.''" if "cs \<noteq> []"
    using that by (simp add: generate_justification_def Let_def butlast_append)
  have descr: "condition_description c =
       (if measurement c = None then py_title (replace_underscore (cond_type c))
        else description c)"
    by (simp add: condition_description_def)
  have none: "generate_justification [] d =
     ''No adverse weather conditions detected that would impact delivery.''"
    by (simp add: generate_justification_def)
  have join3: "py_join '', '' [x, y, z] = x @ '', '' @ y @ '', '' @ z"
    by simp
  show ?thesis
    by (intro conjI impI)
       (rule none one descr category_titles(2) category_titles(5) join3 | erule many)+
qed

theorem justification_text_witness:
  "generate_justification [fog_finding, wind_finding] ''fog'' =
     ''Delivery delay justified due to multiple adverse weather conditions: Fog and Strong winds: 20 m/s. Weather conditions: fog.''"
proof -
  have t: "py_title (replace_underscore ''fog'') = ''Fog''" by (rule category_titles)
  have ne: "[fog_finding] \<noteq> []" by simp
  show ?thesis
    using justification_text [where cs = "[fog_finding]" and c = wind_finding and d = "''fog''"] ne t
    by (simp add: fog_finding_def wind_finding_def condition_description_def)
qed

lemma amount_1h_or_3h_numeric:
  assumes "map_of kv ''1h'' = map_option JNum one" "map_of kv ''3h'' = map_option JNum three"
  shows "amount_1h_or_3h (JObj kv) = Inr (JNum (claimed_amount one three))"
  using assms
  by (cases one; cases three) (simp_all add: amount_1h_or_3h_def seq_def claimed_amount_def)

lemma rain_findings_numeric:
  assumes "kv \<noteq> []" "map_of kv ''1h'' = map_option JNum one" "map_of kv ''3h'' = map_option JNum three"
  shows "rain_findings fmt (JObj kv) =
           Inr (if claimed_amount one three > 10 then
                  [\<lparr>cond_type = ''heavy_rain'',
                    description = ''Heavy rainfall: '' @ fmt (JNum (claimed_amount one three)) @ ''mm'',
                    main = None, measurement = Some (JNum (claimed_amount one three))\<rparr>]
                else [])"
  using assms(1) amount_1h_or_3h_numeric [OF assms(2,3)]
  by (simp add: rain_findings_def seq_def py_gt_def)

lemma snow_findings_numeric:
  assumes "kv \<noteq> []" "map_of kv ''1h'' = map_option JNum one" "map_of kv ''3h'' = map_option JNum three"
  shows "snow_findings fmt (JObj kv) =
           Inr (if claimed_amount one three > 0 then
                  [\<lparr>cond_type = ''snow'',
                    description = ''Snowfall: '' @ fmt (JNum (claimed_amount one three)) @ ''mm'',
                    main = None, measurement = Some (JNum (claimed_amount one three))\<rparr>]
                else [])"
  using assms(1) amount_1h_or_3h_numeric [OF assms(2,3)]
  by (simp add: snow_findings_def seq_def py_gt_def)

lemma keyword_findings_no_measurement:
  "c \<in> set (keyword_findings d m) \<Longrightarrow> measurement c = None"
  by (auto simp: keyword_findings_def split: if_splits)

lemma rain_findings_type:
  "rain_findings fmt rain = Inr rf \<Longrightarrow> c \<in> set rf \<Longrightarrow> cond_type c = ''heavy_rain''"
  by (auto simp: rain_findings_def seq_Inr_iff split: if_splits)

lemma snow_findings_type:
  "snow_findings fmt snow = Inr sf \<Longrightarrow> c \<in> set sf \<Longrightarrow> cond_type c = ''snow''"
  by (auto simp: snow_findings_def seq_Inr_iff split: if_splits)

lemma wind_findings_type:
  "wind_findings fmt speed = Inr wnd \<Longrightarrow> c \<in> set wnd \<Longrightarrow> cond_type c = ''strong_wind''"
  by (auto simp: wind_findings_def seq_Inr_iff split: if_splits)

lemma rain_findings_measured:
  "rain_findings fmt rain = Inr rf \<Longrightarrow> c \<in> set rf \<Longrightarrow> measurement c \<noteq> None"
  by (auto simp: rain_findings_def seq_Inr_iff split: if_splits)

lemma snow_findings_measured:
  "snow_findings fmt snow = Inr sf \<Longrightarrow> c \<in> set sf \<Longrightarrow> measurement c \<noteq> None"
  by (auto simp: snow_findings_def seq_Inr_iff split: if_splits)

lemma rain_findings_absent:
  "\<not> truthy rain \<Longrightarrow> rain_findings fmt rain = Inr []"
  by (simp add: rain_findings_def)

lemma snow_findings_absent:
  "\<not> truthy snow \<Longrightarrow> snow_findings fmt snow = Inr []"
  by (simp add: snow_findings_def)

text \<open>The threshold findings among the conditions of a result.\<close>

lemma threshold_findings:
  assumes "rain_findings fmt rain = Inr rf" "snow_findings fmt snow = Inr sf"
    "wind_findings fmt speed = Inr wnd"
  shows "filter (\<lambda>c. cond_type c = ''heavy_rain'' \<and> measurement c \<noteq> None)
           (keyword_findings d m @ rf @ sf @ wnd) = rf"
    and "filter (\<lambda>c. cond_type c = ''snow'' \<and> measurement c \<noteq> None)
           (keyword_findings d m @ rf @ sf @ wnd) = sf"
proof -
  have k: "filter (\<lambda>c. P c \<and> measurement c \<noteq> None) (keyword_findings d m) = []" for P
    by (simp add: filter_empty_conv keyword_findings_no_measurement)
  have r1: "filter (\<lambda>c. cond_type c = ''heavy_rain'' \<and> measurement c \<noteq> None) rf = rf"
    using rain_findings_type [OF assms(1)] rain_findings_measured [OF assms(1)]
    by (auto simp: filter_id_conv)
  have r2: "filter (\<lambda>c. cond_type c = ''snow'' \<and> measurement c \<noteq> None) rf = []"
    using rain_findings_type [OF assms(1)] by (auto simp: filter_empty_conv)
  have s1: "filter (\<lambda>c. cond_type c = ''snow'' \<and> measurement c \<noteq> None) sf = sf"
    using snow_findings_type [OF assms(2)] snow_findings_measured [OF assms(2)]
    by (auto simp: filter_id_conv)
  have s2: "filter (\<lambda>c. cond_type c = ''heavy_rain'' \<and> measurement c \<noteq> None) sf = []"
    using snow_findings_type [OF assms(2)] by (auto simp: filter_empty_conv)
  have w: "filter (\<lambda>c. cond_type c = ''heavy_rain'' \<and> measurement c \<noteq> None) wnd = []"
          "filter (\<lambda>c. cond_type c = ''snow'' \<and> measurement c \<noteq> None) wnd = []"
    using wind_findings_type [OF assms(3)] by (auto simp: filter_empty_conv)
  show "filter (\<lambda>c. cond_type c = ''heavy_rain'' \<and> measurement c \<noteq> None)
           (keyword_findings d m @ rf @ sf @ wnd) = rf"
    by (simp only: filter_append k r1 s2 w append_Nil append_Nil2)
  show "filter (\<lambda>c. cond_type c = ''snow'' \<and> measurement c \<noteq> None)
           (keyword_findings d m @ rf @ sf @ wnd) = sf"
    by (simp only: filter_append k r2 s1 w append_Nil append_Nil2)
qed

lemma drizzle_report_analysis:
  "analyze_adverse_weather print_number drizzle_report = Inr drizzle_analysis"
  by code_simp

lemma sleet_report_analysis:
  "analyze_adverse_weather print_number sleet_report = Inr sleet_analysis"
  by code_simp

text \<open>The threshold findings of a result the detector returned.\<close>

lemma precipitation_partial:
  assumes "analyze_adverse_weather fmt wd = Inr r"
    and "py_index wd ''data'' = Inr (JArr (JObj obs # rest))"
  shows "(map_of obs ''rain'' = Some (JObj kv) \<and> kv \<noteq> []
            \<and> map_of kv ''1h'' = map_option JNum one \<and> map_of kv ''3h'' = map_option JNum three \<longrightarrow>
          filter (\<lambda>c. cond_type c = ''heavy_rain'' \<and> measurement c \<noteq> None) (conditions r) =
            (if claimed_amount one three > 10 then
               [\<lparr>cond_type = ''heavy_rain'',
                 description = ''Heavy rainfall: '' @ fmt (JNum (claimed_amount one three)) @ ''mm'',
                 main = None, measurement = Some (JNum (claimed_amount one three))\<rparr>]
             else []))
       \<and> (map_of obs ''rain'' = None \<or> map_of obs ''rain'' = Some (JObj []) \<longrightarrow>
          filter (\<lambda>c. cond_type c = ''heavy_rain'' \<and> measurement c \<noteq> None) (conditions r) = [])
       \<and> (map_of obs ''snow'' = Some (JObj kv') \<and> kv' \<noteq> []
            \<and> map_of kv' ''1h'' = map_option JNum one' \<and> map_of kv' ''3h'' = map_option JNum three' \<longrightarrow>
          filter (\<lambda>c. cond_type c = ''snow'' \<and> measurement c \<noteq> None) (conditions r) =
            (if claimed_amount one' three' > 0 then
               [\<lparr>cond_type = ''snow'',
                 description = ''Snowfall: '' @ fmt (JNum (claimed_amount one' three')) @ ''mm'',
                 main = None, measurement = Some (JNum (claimed_amount one' three'))\<rparr>]
             else []))
       \<and> (map_of obs ''snow'' = None \<or> map_of obs ''snow'' = Some (JObj []) \<longrightarrow>
          filter (\<lambda>c. cond_type c = ''snow'' \<and> measurement c \<noteq> None) (conditions r) = [])"
proof -
  from first_observation [OF assms] obtain mock where
    "analyze_observation fmt (JObj obs) mock = Inr r" ..
  from analyze_observation_parts [OF this] obtain d m rain snow rf sf speed wnd where
    rain: "py_get (JObj obs) ''rain'' (JObj []) = Inr rain"
    and snow: "py_get (JObj obs) ''snow'' (JObj []) = Inr snow"
    and rf: "rain_findings fmt rain = Inr rf"
    and sf: "snow_findings fmt snow = Inr sf"
    and wnd: "wind_findings fmt speed = Inr wnd"
    and conds: "conditions r = keyword_findings d m @ rf @ sf @ wnd"
    by blast
  note th = threshold_findings [OF rf sf wnd, of d m, folded conds]
  have a: "rf = (if claimed_amount one three > 10 then
               [\<lparr>cond_type = ''heavy_rain'',
                 description = ''Heavy rainfall: '' @ fmt (JNum (claimed_amount one three)) @ ''mm'',
                 main = None, measurement = Some (JNum (claimed_amount one three))\<rparr>]
             else [])"
    if "map_of obs ''rain'' = Some (JObj kv)" "kv \<noteq> []"
       "map_of kv ''1h'' = map_option JNum one" "map_of kv ''3h'' = map_option JNum three"
  proof -
    from rain that(1) have "rain = JObj kv" by simp
    with rf rain_findings_numeric [OF that(2,3,4), of fmt] show ?thesis by simp
  qed
  have b: "rf = []" if "map_of obs ''rain'' = None \<or> map_of obs ''rain'' = Some (JObj [])"
  proof -
    from rain that have "rain = JObj []" by auto
    with rf show ?thesis by (simp add: rain_findings_absent)
  qed
  have c: "sf = (if claimed_amount one' three' > 0 then
               [\<lparr>cond_type = ''snow'',
                 description = ''Snowfall: '' @ fmt (JNum (claimed_amount one' three')) @ ''mm'',
                 main = None, measurement = Some (JNum (claimed_amount one' three'))\<rparr>]
             else [])"
    if "map_of obs ''snow'' = Some (JObj kv')" "kv' \<noteq> []"
       "map_of kv' ''1h'' = map_option JNum one'" "map_of kv' ''3h'' = map_option JNum three'"
  proof -
    from snow that(1) have "snow = JObj kv'" by simp
    with sf snow_findings_numeric [OF that(2,3,4), of fmt] show ?thesis by simp
  qed
  have d: "sf = []" if "map_of obs ''snow'' = None \<or> map_of obs ''snow'' = Some (JObj [])"
  proof -
    from snow that have "snow = JObj []" by auto
    with sf show ?thesis by (simp add: snow_findings_absent)
  qed
  show ?thesis
    unfolding th using a b c d by blast
qed

lemma weather_text_optional:
  "map_of obs ''weather'' = Some (JArr (JObj w # ws)) \<Longrightarrow> map_of w key = map_option JStr t \<Longrightarrow>
   weather_text (JObj obs) key = Inr (py_lower (case t of Some x \<Rightarrow> x | None \<Rightarrow> []))"
  by (cases t) (simp_all add: weather_text_def seq_def py_lower_def)

lemma wind_findings_numeric:
  "wind_findings fmt (JNum x) =
     Inr (if x > 15 then
            [\<lparr>cond_type = ''strong_wind'', description = ''Strong winds: '' @ fmt (JNum x) @ '' m/s'',
              main = None, measurement = Some (JNum x)\<rparr>]
          else [])"
  by (simp add: wind_findings_def seq_def py_gt_def)

lemma analyze_observation_returns:
  assumes "weather_text (JObj obs) ''description'' = Inr d"
    and "weather_text (JObj obs) ''main'' = Inr m"
    and "rain_findings fmt (case map_of obs ''rain'' of Some x \<Rightarrow> x | None \<Rightarrow> JObj []) = Inr rf"
    and "snow_findings fmt (case map_of obs ''snow'' of Some x \<Rightarrow> x | None \<Rightarrow> JObj []) = Inr sf"
    and "wind_findings fmt (case map_of obs ''wind_speed'' of Some x \<Rightarrow> x | None \<Rightarrow> JNum 0) = Inr wnd"
  shows "\<exists>r. analyze_observation fmt (JObj obs) mock = Inr r"
  using assms
  by (simp add: analyze_observation_def seq_def Let_def split: option.splits)

lemma analyze_adverse_weather_first:
  assumes "py_index wd ''data'' = Inr (JArr (info # rest))"
  shows "\<exists>mock. analyze_adverse_weather fmt wd = analyze_observation fmt info mock"
proof -
  from assms obtain kv where wd: "wd = JObj kv"
    and d: "map_of kv ''data'' = Some (JArr (info # rest))"
    by (cases wd) (auto split: option.splits)
  then have "kv \<noteq> []" by auto
  with wd d show ?thesis
    by (auto simp: analyze_adverse_weather_def seq_def split: option.splits)
qed

text \<open>The detector returns on an observation whose fields have the types the API gives them.\<close>

lemma precipitation_returns:
  assumes ix: "py_index wd ''data'' = Inr (JArr (JObj obs # rest))"
    and we: "map_of obs ''weather'' = Some (JArr (JObj w # ws))"
    and ds: "map_of w ''description'' = map_option JStr ds"
    and ms: "map_of w ''main'' = map_option JStr ms"
    and wi: "map_of obs ''wind_speed'' = map_option JNum speed"
    and ra: "map_of obs ''rain'' = None \<or> map_of obs ''rain'' = Some (JObj [])
             \<or> (map_of obs ''rain'' = Some (JObj kv) \<and> kv \<noteq> []
                \<and> map_of kv ''1h'' = map_option JNum one
                \<and> map_of kv ''3h'' = map_option JNum three)"
    and sn: "map_of obs ''snow'' = None \<or> map_of obs ''snow'' = Some (JObj [])
             \<or> (map_of obs ''snow'' = Some (JObj kv') \<and> kv' \<noteq> []
                \<and> map_of kv' ''1h'' = map_option JNum one'
                \<and> map_of kv' ''3h'' = map_option JNum three')"
  shows "\<exists>r. analyze_adverse_weather fmt wd = Inr r"
proof -
  from analyze_adverse_weather_first [OF ix] obtain mock where
    eq: "analyze_adverse_weather fmt wd = analyze_observation fmt (JObj obs) mock" ..
  have r: "\<exists>rf. rain_findings fmt (case map_of obs ''rain'' of Some x \<Rightarrow> x | None \<Rightarrow> JObj [])
             = Inr rf"
    using ra
  proof (elim disjE conjE)
    assume "map_of obs ''rain'' = Some (JObj kv)" "kv \<noteq> []"
      "map_of kv ''1h'' = map_option JNum one" "map_of kv ''3h'' = map_option JNum three"
    then show ?thesis using rain_findings_numeric [of kv one three fmt] by simp
  qed (simp_all add: rain_findings_absent)
  have s: "\<exists>sf. snow_findings fmt (case map_of obs ''snow'' of Some x \<Rightarrow> x | None \<Rightarrow> JObj [])
             = Inr sf"
    using sn
  proof (elim disjE conjE)
    assume "map_of obs ''snow'' = Some (JObj kv')" "kv' \<noteq> []"
      "map_of kv' ''1h'' = map_option JNum one'" "map_of kv' ''3h'' = map_option JNum three'"
    then show ?thesis using snow_findings_numeric [of kv' one' three' fmt] by simp
  qed (simp_all add: snow_findings_absent)
  have w: "\<exists>wnd. wind_findings fmt (case map_of obs ''wind_speed'' of
                                       Some x \<Rightarrow> x | None \<Rightarrow> JNum 0) = Inr wnd"
    by (cases speed) (simp_all add: wi wind_findings_numeric)
  from r s w obtain rf sf wnd where
    "rain_findings fmt (case map_of obs ''rain'' of Some x \<Rightarrow> x | None \<Rightarrow> JObj []) = Inr rf"
    "snow_findings fmt (case map_of obs ''snow'' of Some x \<Rightarrow> x | None \<Rightarrow> JObj []) = Inr sf"
    "wind_findings fmt (case map_of obs ''wind_speed'' of Some x \<Rightarrow> x | None \<Rightarrow> JNum 0) = Inr wnd"
    by blast
  from analyze_observation_returns [OF weather_text_optional [OF we ds]
      weather_text_optional [OF we ms] this, of mock]
  show ?thesis unfolding eq .
qed

text \<open>
  C10. For the first observation \<open>obs\<close> of a reply on which the detector returns: when
  its rain field is a non-empty dict whose \<open>1h\<close> and \<open>3h\<close> entries are numbers or
  absent, the findings of category \<open>heavy_rain\<close> with a measurement are exactly one
  finding carrying the claimed amount when that amount exceeds 10, and none otherwise;
  when the rain field is absent or an empty dict there is none. The same holds for the
  snow field, the category \<open>snow\<close> and the threshold 0. And the detector does return,
  with these findings, on every reply whose first observation has a weather entry with
  texts, a wind speed that is a number or absent, and rain and snow fields of these
  shapes.
\<close>

theorem precipitation_thresholds:
  "(analyze_adverse_weather fmt wd = Inr r
      \<and> py_index wd ''data'' = Inr (JArr (JObj obs # rest)) \<longrightarrow>
      (map_of obs ''rain'' = Some (JObj kv) \<and> kv \<noteq> []
            \<and> map_of kv ''1h'' = map_option JNum one \<and> map_of kv ''3h'' = map_option JNum three \<longrightarrow>
          filter (\<lambda>c. cond_type c = ''heavy_rain'' \<and> measurement c \<noteq> None) (conditions r) =
            (if claimed_amount one three > 10 then
               [\<lparr>cond_type = ''heavy_rain'',
                 description = ''Heavy rainfall: '' @ fmt (JNum (claimed_amount one three)) @ ''mm'',
                 main = None, measurement = Some (JNum (claimed_amount one three))\<rparr>]
             else []))
       \<and> (map_of obs ''rain'' = None \<or> map_of obs ''rain'' = Some (JObj []) \<longrightarrow>
          filter (\<lambda>c. cond_type c = ''heavy_rain'' \<and> measurement c \<noteq> None) (conditions r) = [])
       \<and> (map_of obs ''snow'' = Some (JObj kv') \<and> kv' \<noteq> []
            \<and> map_of kv' ''1h'' = map_option JNum one' \<and> map_of kv' ''3h'' = map_option JNum three' \<longrightarrow>
          filter (\<lambda>c. cond_type c = ''snow'' \<and> measurement c \<noteq> None) (conditions r) =
            (if claimed_amount one' three' > 0 then
               [\<lparr>cond_type = ''snow'',
                 description = ''Snowfall: '' @ fmt (JNum (claimed_amount one' three')) @ ''mm'',
                 main = None, measurement = Some (JNum (claimed_amount one' three'))\<rparr>]
             else []))
       \<and> (map_of obs ''snow'' = None \<or> map_of obs ''snow'' = Some (JObj []) \<longrightarrow>
          filter (\<lambda>c. cond_type c = ''snow'' \<and> measurement c \<noteq> None) (conditions r) = []))
   \<and> (py_index wd ''data'' = Inr (JArr (JObj obs # rest))
      \<and> map_of obs ''weather'' = Some (JArr (JObj w # ws))
      \<and> map_of w ''description'' = map_option JStr ds
      \<and> map_of w ''main'' = map_option JStr ms
      \<and> map_of obs ''wind_speed'' = map_option JNum speed
      \<and> (map_of obs ''rain'' = None \<or> map_of obs ''rain'' = Some (JObj [])
          \<or> (map_of obs ''rain'' = Some (JObj kv) \<and> kv \<noteq> []
             \<and> map_of kv ''1h'' = map_option JNum one
             \<and> map_of kv ''3h'' = map_option JNum three))
      \<and> (map_of obs ''snow'' = None \<or> map_of obs ''snow'' = Some (JObj [])
          \<or> (map_of obs ''snow'' = Some (JObj kv') \<and> kv' \<noteq> []
             \<and> map_of kv' ''1h'' = map_option JNum one'
             \<and> map_of kv' ''3h'' = map_option JNum three')) \<longrightarrow>
      (\<exists>r'. analyze_adverse_weather fmt wd = Inr r'
         \<and> filter (\<lambda>c. cond_type c = ''heavy_rain'' \<and> measurement c \<noteq> None) (conditions r') =
             (if map_of obs ''rain'' = Some (JObj kv) \<and> kv \<noteq> [] \<and> claimed_amount one three > 10 then
                [\<lparr>cond_type = ''heavy_rain'',
                  description = ''Heavy rainfall: '' @ fmt (JNum (claimed_amount one three)) @ ''mm'',
                  main = None, measurement = Some (JNum (claimed_amount one three))\<rparr>]
              else [])
         \<and> filter (\<lambda>c. cond_type c = ''snow'' \<and> measurement c \<noteq> None) (conditions r') =
             (if map_of obs ''snow'' = Some (JObj kv') \<and> kv' \<noteq> [] \<and> claimed_amount one' three' > 0 then
                [\<lparr>cond_type = ''snow'',
                  description = ''Snowfall: '' @ fmt (JNum (claimed_amount one' three')) @ ''mm'',
                  main = None, measurement = Some (JNum (claimed_amount one' three'))\<rparr>]
              else [])))"
proof (rule conjI; rule impI)
  assume "analyze_adverse_weather fmt wd = Inr r
      \<and> py_index wd ''data'' = Inr (JArr (JObj obs # rest))"
  then have an: "analyze_adverse_weather fmt wd = Inr r"
    and ix: "py_index wd ''data'' = Inr (JArr (JObj obs # rest))" by simp_all
  from precipitation_partial [OF an ix, of kv one three kv' one' three']
  show "(map_of obs ''rain'' = Some (JObj kv) \<and> kv \<noteq> []
            \<and> map_of kv ''1h'' = map_option JNum one \<and> map_of kv ''3h'' = map_option JNum three \<longrightarrow>
          filter (\<lambda>c. cond_type c = ''heavy_rain'' \<and> measurement c \<noteq> None) (conditions r) =
            (if claimed_amount one three > 10 then
               [\<lparr>cond_type = ''heavy_rain'',
                 description = ''Heavy rainfall: '' @ fmt (JNum (claimed_amount one three)) @ ''mm'',
                 main = None, measurement = Some (JNum (claimed_amount one three))\<rparr>]
             else []))
       \<and> (map_of obs ''rain'' = None \<or> map_of obs ''rain'' = Some (JObj []) \<longrightarrow>
          filter (\<lambda>c. cond_type c = ''heavy_rain'' \<and> measurement c \<noteq> None) (conditions r) = [])
       \<and> (map_of obs ''snow'' = Some (JObj kv') \<and> kv' \<noteq> []
            \<and> map_of kv' ''1h'' = map_option JNum one' \<and> map_of kv' ''3h'' = map_option JNum three' \<longrightarrow>
          filter (\<lambda>c. cond_type c = ''snow'' \<and> measurement c \<noteq> None) (conditions r) =
            (if claimed_amount one' three' > 0 then
               [\<lparr>cond_type = ''snow'',
                 description = ''Snowfall: '' @ fmt (JNum (claimed_amount one' three')) @ ''mm'',
                 main = None, measurement = Some (JNum (claimed_amount one' three'))\<rparr>]
             else []))
       \<and> (map_of obs ''snow'' = None \<or> map_of obs ''snow'' = Some (JObj []) \<longrightarrow>
          filter (\<lambda>c. cond_type c = ''snow'' \<and> measurement c \<noteq> None) (conditions r) = [])" .
next
  assume h: "py_index wd ''data'' = Inr (JArr (JObj obs # rest))
      \<and> map_of obs ''weather'' = Some (JArr (JObj w # ws))
      \<and> map_of w ''description'' = map_option JStr ds
      \<and> map_of w ''main'' = map_option JStr ms
      \<and> map_of obs ''wind_speed'' = map_option JNum speed
      \<and> (map_of obs ''rain'' = None \<or> map_of obs ''rain'' = Some (JObj [])
          \<or> (map_of obs ''rain'' = Some (JObj kv) \<and> kv \<noteq> []
             \<and> map_of kv ''1h'' = map_option JNum one
             \<and> map_of kv ''3h'' = map_option JNum three))
      \<and> (map_of obs ''snow'' = None \<or> map_of obs ''snow'' = Some (JObj [])
          \<or> (map_of obs ''snow'' = Some (JObj kv') \<and> kv' \<noteq> []
             \<and> map_of kv' ''1h'' = map_option JNum one'
             \<and> map_of kv' ''3h'' = map_option JNum three'))"
  then have ix: "py_index wd ''data'' = Inr (JArr (JObj obs # rest))"
    and ra: "map_of obs ''rain'' = None \<or> map_of obs ''rain'' = Some (JObj [])
          \<or> (map_of obs ''rain'' = Some (JObj kv) \<and> kv \<noteq> []
             \<and> map_of kv ''1h'' = map_option JNum one
             \<and> map_of kv ''3h'' = map_option JNum three)"
    and sn: "map_of obs ''snow'' = None \<or> map_of obs ''snow'' = Some (JObj [])
          \<or> (map_of obs ''snow'' = Some (JObj kv') \<and> kv' \<noteq> []
             \<and> map_of kv' ''1h'' = map_option JNum one'
             \<and> map_of kv' ''3h'' = map_option JNum three')"
    by simp_all
  from h obtain r' where an: "analyze_adverse_weather fmt wd = Inr r'"
    using precipitation_returns [of wd obs rest w ws ds ms speed kv one three kv' one' three' fmt]
    by blast
  note p = precipitation_partial [OF an ix, of kv one three kv' one' three']
  have rain: "filter (\<lambda>c. cond_type c = ''heavy_rain'' \<and> measurement c \<noteq> None) (conditions r') =
             (if map_of obs ''rain'' = Some (JObj kv) \<and> kv \<noteq> [] \<and> claimed_amount one three > 10 then
                [\<lparr>cond_type = ''heavy_rain'',
                  description = ''Heavy rainfall: '' @ fmt (JNum (claimed_amount one three)) @ ''mm'',
                  main = None, measurement = Some (JNum (claimed_amount one three))\<rparr>]
              else [])"
    using ra p by (elim disjE conjE) auto
  have snow: "filter (\<lambda>c. cond_type c = ''snow'' \<and> measurement c \<noteq> None) (conditions r') =
             (if map_of obs ''snow'' = Some (JObj kv') \<and> kv' \<noteq> [] \<and> claimed_amount one' three' > 0 then
                [\<lparr>cond_type = ''snow'',
                  description = ''Snowfall: '' @ fmt (JNum (claimed_amount one' three')) @ ''mm'',
                  main = None, measurement = Some (JNum (claimed_amount one' three'))\<rparr>]
              else [])"
    using sn p by (elim disjE conjE) auto
  from an rain snow
  show "\<exists>r'. analyze_adverse_weather fmt wd = Inr r'
         \<and> filter (\<lambda>c. cond_type c = ''heavy_rain'' \<and> measurement c \<noteq> None) (conditions r') =
             (if map_of obs ''rain'' = Some (JObj kv) \<and> kv \<noteq> [] \<and> claimed_amount one three > 10 then
                [\<lparr>cond_type = ''heavy_rain'',
                  description = ''Heavy rainfall: '' @ fmt (JNum (claimed_amount one three)) @ ''mm'',
                  main = None, measurement = Some (JNum (claimed_amount one three))\<rparr>]
              else [])
         \<and> filter (\<lambda>c. cond_type c = ''snow'' \<and> measurement c \<noteq> None) (conditions r') =
             (if map_of obs ''snow'' = Some (JObj kv') \<and> kv' \<noteq> [] \<and> claimed_amount one' three' > 0 then
                [\<lparr>cond_type = ''snow'',
                  description = ''Snowfall: '' @ fmt (JNum (claimed_amount one' three')) @ ''mm'',
                  main = None, measurement = Some (JNum (claimed_amount one' three'))\<rparr>]
              else [])"
    by blast
qed

text \<open>
  The detector on two replies: rain of 0 in \<open>1h\<close> and 12 in \<open>3h\<close> gives a heavy-rain
  finding with measurement 12 and no snow finding; an empty rain dict with snow of 2 in
  \<open>3h\<close> gives no rain finding and a snow finding with measurement 2.
\<close>

theorem precipitation_thresholds_witness:
  "map_sum id (\<lambda>r. filter (\<lambda>c. cond_type c = ''heavy_rain'' \<and> measurement c \<noteq> None) (conditions r))
       (analyze_adverse_weather print_number drizzle_report)
     = Inr [\<lparr>cond_type = ''heavy_rain'', description = ''Heavy rainfall: 12mm'',
             main = None, measurement = Some (JNum 12)\<rparr>]
   \<and> map_sum id (\<lambda>r. filter (\<lambda>c. cond_type c = ''snow'' \<and> measurement c \<noteq> None) (conditions r))
       (analyze_adverse_weather print_number drizzle_report)
     = Inr []
   \<and> map_sum id (\<lambda>r. filter (\<lambda>c. cond_type c = ''heavy_rain'' \<and> measurement c \<noteq> None) (conditions r))
       (analyze_adverse_weather print_number sleet_report)
     = Inr []
   \<and> map_sum id (\<lambda>r. filter (\<lambda>c. cond_type c = ''snow'' \<and> measurement c \<noteq> None) (conditions r))
       (analyze_adverse_weather print_number sleet_report)
     = Inr [\<lparr>cond_type = ''snow'', description = ''Snowfall: 2mm'',
             main = None, measurement = Some (JNum 2)\<rparr>]"
proof -
  have p12: "print_number (JNum 12) = ''12''" and p2: "print_number (JNum 2) = ''2''"
    by code_simp+
  have i1: "py_index drizzle_report ''data'' =
              Inr (JArr (JObj [(''weather'', JArr [JObj [(''main'', JStr ''Rain''),
                                                       (''description'', JStr ''moderate rain'')]]),
                               (''rain'', JObj [(''1h'', JNum 0), (''3h'', JNum 12)]),
                               (''wind_speed'', JNum 4)] # []))"
    by (simp add: drizzle_report_def observation_def)
  have i2: "py_index sleet_report ''data'' =
              Inr (JArr (JObj [(''weather'', JArr [JObj [(''main'', JStr ''Clouds''),
                                                       (''description'', JStr ''overcast clouds'')]]),
                               (''rain'', JObj []),
                               (''snow'', JObj [(''3h'', JNum 2)])] # []))"
    by (simp add: sleet_report_def observation_def)
  have "\<exists>r'. analyze_adverse_weather print_number drizzle_report = Inr r'
         \<and> filter (\<lambda>c. cond_type c = ''heavy_rain'' \<and> measurement c \<noteq> None) (conditions r') =
               [\<lparr>cond_type = ''heavy_rain'', description = ''Heavy rainfall: 12mm'',
                 main = None, measurement = Some (JNum 12)\<rparr>]
         \<and> filter (\<lambda>c. cond_type c = ''snow'' \<and> measurement c \<noteq> None) (conditions r') = []"
    using precipitation_thresholds [where fmt = print_number and wd = drizzle_report
        and rest = "[]" and ws = "[]"
        and obs = "[(''weather'', JArr [JObj [(''main'', JStr ''Rain''),
                                             (''description'', JStr ''moderate rain'')]]),
                    (''rain'', JObj [(''1h'', JNum 0), (''3h'', JNum 12)]),
                    (''wind_speed'', JNum 4)]"
        and w = "[(''main'', JStr ''Rain''), (''description'', JStr ''moderate rain'')]"
        and ds = "Some ''moderate rain''" and ms = "Some ''Rain''" and speed = "Some 4"
        and kv = "[(''1h'', JNum 0), (''3h'', JNum 12)]" and one = "Some 0" and three = "Some 12"
        and kv' = "[]" and one' = None and three' = None] i1 p12
    by (simp add: claimed_amount_def)
  then have a: "map_sum id (\<lambda>r. filter (\<lambda>c. cond_type c = ''heavy_rain'' \<and> measurement c \<noteq> None) (conditions r))
       (analyze_adverse_weather print_number drizzle_report)
     = Inr [\<lparr>cond_type = ''heavy_rain'', description = ''Heavy rainfall: 12mm'',
             main = None, measurement = Some (JNum 12)\<rparr>]"
    and b: "map_sum id (\<lambda>r. filter (\<lambda>c. cond_type c = ''snow'' \<and> measurement c \<noteq> None) (conditions r))
       (analyze_adverse_weather print_number drizzle_report)
     = Inr []"
    by auto
  have "\<exists>r'. analyze_adverse_weather print_number sleet_report = Inr r'
         \<and> filter (\<lambda>c. cond_type c = ''heavy_rain'' \<and> measurement c \<noteq> None) (conditions r') = []
         \<and> filter (\<lambda>c. cond_type c = ''snow'' \<and> measurement c \<noteq> None) (conditions r') =
               [\<lparr>cond_type = ''snow'', description = ''Snowfall: 2mm'',
                 main = None, measurement = Some (JNum 2)\<rparr>]"
    using precipitation_thresholds [where fmt = print_number and wd = sleet_report
        and rest = "[]" and ws = "[]"
        and obs = "[(''weather'', JArr [JObj [(''main'', JStr ''Clouds''),
                                             (''description'', JStr ''overcast clouds'')]]),
                    (''rain'', JObj []),
                    (''snow'', JObj [(''3h'', JNum 2)])]"
        and w = "[(''main'', JStr ''Clouds''), (''description'', JStr ''overcast clouds'')]"
        and ds = "Some ''overcast clouds''" and ms = "Some ''Clouds''" and speed = None
        and kv = "[]" and one = None and three = None
        and kv' = "[(''3h'', JNum 2)]" and one' = None and three' = "Some 2"] i2 p2
    by (simp add: claimed_amount_def)
  then have c: "map_sum id (\<lambda>r. filter (\<lambda>c. cond_type c = ''heavy_rain'' \<and> measurement c \<noteq> None) (conditions r))
       (analyze_adverse_weather print_number sleet_report)
     = Inr []"
    and d: "map_sum id (\<lambda>r. filter (\<lambda>c. cond_type c = ''snow'' \<and> measurement c \<noteq> None) (conditions r))
       (analyze_adverse_weather print_number sleet_report)
     = Inr [\<lparr>cond_type = ''snow'', description = ''Snowfall: 2mm'',
             main = None, measurement = Some (JNum 2)\<rparr>]"
    by auto
  show ?thesis using a b c d by blast
qed

section \<open>The weather adjudication and the verdicts of records\<close>

lemma excuse_fields:
  "status (excuse wa r) = ''excused-weather''"
  "rec_id (excuse wa r) = rec_id r"
  "supplier_id (excuse wa r) = supplier_id r"
  "date_recorded (excuse wa r) = date_recorded r"
  by (simp_all add: excuse_def)

lemma not_target_excused: "\<not> is_target sid d (excuse wa r)"
  by (simp add: is_target_def excuse_fields)

lemma update_first_nth:
  "length (update_first p f xs) = length xs
   \<and> (\<forall>i < length xs. update_first p f xs ! i = xs ! i
         \<or> (p (xs ! i) \<and> first_where p xs = Some (xs ! i) \<and> update_first p f xs ! i = f (xs ! i)))"
proof (induction xs)
  case Nil
  then show ?case by simp
next
  case (Cons x xs)
  show ?case
  proof (cases "p x")
    case True
    then show ?thesis by (auto simp: first_where_def nth_Cons split: nat.splits)
  next
    case False
    with Cons show ?thesis by (auto simp: first_where_def nth_Cons split: nat.splits)
  qed
qed

text \<open>What one run of lines 186-226 does to the rows.\<close>

lemma update_records_changes:
  assumes "update_records wa request d rows = Inr (rows', updated)"
  shows "length rows' = length rows"
    and "\<forall>i < length rows. rows' ! i = rows ! i
           \<or> (has_adverse_weather wa \<and> status (rows ! i) = ''non-compliant''
               \<and> supplier_id (rows ! i) = wi_supplier_id request
               \<and> rows' ! i = excuse wa (rows ! i))"
    and "\<forall>r \<in> set updated. status r = ''excused-weather''"
    and "\<not> has_adverse_weather wa \<longrightarrow> rows' = rows \<and> updated = []"
proof -
  let ?explicit = "compliance_record_id request \<noteq> None \<and> compliance_record_id request \<noteq> Some 0"
  let ?p = "\<lambda>r. Some (rec_id r) = compliance_record_id request
                  \<and> supplier_id r = wi_supplier_id request"
  let ?q = "is_target (wi_supplier_id request) d"
  have "length rows' = length rows
      \<and> (\<forall>i < length rows. rows' ! i = rows ! i
           \<or> (has_adverse_weather wa \<and> status (rows ! i) = ''non-compliant''
               \<and> supplier_id (rows ! i) = wi_supplier_id request
               \<and> rows' ! i = excuse wa (rows ! i)))
      \<and> (\<forall>r \<in> set updated. status r = ''excused-weather'')
      \<and> (\<not> has_adverse_weather wa \<longrightarrow> rows' = rows \<and> updated = [])"
  proof (cases ?explicit)
    case True
    with assms obtain rcd where f: "first_where ?p rows = Some rcd"
      by (cases "first_where ?p rows") (simp_all add: update_records_def Let_def)
    show ?thesis
    proof (cases "has_adverse_weather wa \<and> status rcd = ''non-compliant''")
      case adverse: True
      with assms True f have r: "rows' = update_first ?p (excuse wa) rows"
        and u: "updated = [excuse wa rcd]"
        by (simp_all add: update_records_def Let_def)
      from update_first_nth [of ?p "excuse wa" rows] f adverse
      show ?thesis unfolding r u by (auto simp: excuse_fields)
    next
      case False
      with assms True f have "rows' = rows" "updated = []"
        by (auto simp: update_records_def Let_def split: if_splits)
      then show ?thesis by simp
    qed
  next
    case False
    show ?thesis
    proof (cases "has_adverse_weather wa")
      case True
      with assms False have r: "rows' = map (\<lambda>r. if ?q r then excuse wa r else r) rows"
        and u: "updated = map (excuse wa) (filter ?q rows)"
        by (auto simp: update_records_def Let_def split: if_splits)
      show ?thesis unfolding r u using True by (auto simp: excuse_fields is_target_def)
    next
      case benign: False
      with assms False have "rows' = rows" "updated = []"
        by (auto simp: update_records_def Let_def split: if_splits)
      then show ?thesis by simp
    qed
  qed
  then show "length rows' = length rows"
    and "\<forall>i < length rows. rows' ! i = rows ! i
           \<or> (has_adverse_weather wa \<and> status (rows ! i) = ''non-compliant''
               \<and> supplier_id (rows ! i) = wi_supplier_id request
               \<and> rows' ! i = excuse wa (rows ! i))"
    and "\<forall>r \<in> set updated. status r = ''excused-weather''"
    and "\<not> has_adverse_weather wa \<longrightarrow> rows' = rows \<and> updated = []"
    by blast+
qed

text \<open>A second run on the rows of the first selects nothing.\<close>

lemma update_records_again:
  assumes "update_records wa request d rows = Inr (rows', updated)"
  shows "update_records wa request d rows' = Inr (rows', [])"
proof -
  let ?explicit = "compliance_record_id request \<noteq> None \<and> compliance_record_id request \<noteq> Some 0"
  let ?p = "\<lambda>r. Some (rec_id r) = compliance_record_id request
                  \<and> supplier_id r = wi_supplier_id request"
  let ?q = "is_target (wi_supplier_id request) d"
  show ?thesis
  proof (cases ?explicit)
    case True
    with assms obtain rcd where f: "first_where ?p rows = Some rcd"
      by (cases "first_where ?p rows") (simp_all add: update_records_def Let_def)
    show ?thesis
    proof (cases "has_adverse_weather wa \<and> status rcd = ''non-compliant''")
      case adverse: True
      with assms True f have r: "rows' = update_first ?p (excuse wa) rows"
        by (simp_all add: update_records_def Let_def)
      have "first_where ?p rows' = Some (excuse wa rcd)"
        unfolding r by (subst first_where_update_first) (simp_all add: excuse_fields f)
      with True show ?thesis
        by (simp add: update_records_def Let_def excuse_fields)
    next
      case False
      with assms True f have "rows' = rows"
        by (auto simp: update_records_def Let_def split: if_splits)
      with True f False show ?thesis
        by (auto simp: update_records_def Let_def)
    qed
  next
    case False
    show ?thesis
    proof (cases "has_adverse_weather wa")
      case True
      with assms False have r: "rows' = map (\<lambda>r. if ?q r then excuse wa r else r) rows"
        by (auto simp: update_records_def Let_def split: if_splits)
      have none: "\<not> ?q x" if "x \<in> set rows'" for x
        using that unfolding r by (auto simp: not_target_excused)
      then have "filter ?q rows' = []" "map (\<lambda>r. if ?q r then excuse wa r else r) rows' = rows'"
        by (simp_all add: filter_empty_conv map_idI)
      with False True show ?thesis
        by (auto simp: update_records_def Let_def)
    next
      case benign: False
      with assms False have "rows' = rows"
        by (auto simp: update_records_def Let_def split: if_splits)
      with False benign show ?thesis
        by (auto simp: update_records_def Let_def)
    qed
  qed
qed

text \<open>The steps of the router before the rows are read depend on the suppliers only.\<close>

lemma check_weather_impact_parts:
  "check_weather_impact c db request = Inr (db', committed, resp) \<Longrightarrow>
   \<exists>supplier la lo d wa rows updated.
       first_where (\<lambda>s. sup_id s = wi_supplier_id request) (suppliers db) = Some supplier
     \<and> coordinates c request supplier = Inr (la, lo)
     \<and> strptime c (delivery_date request) = Some d
     \<and> truthy (get_historical_weather (api c) la lo (delivery_date request))
     \<and> analyze_adverse_weather (fmt_number c)
          (get_historical_weather (api c) la lo (delivery_date request)) = Inr wa
     \<and> update_records wa request d (compliance_records db) = Inr (rows, updated)
     \<and> db' = db\<lparr>compliance_records := rows\<rparr>
     \<and> committed = (updated \<noteq> [])
     \<and> resp = \<lparr>weather_analysis = wa, wi_justification = justification wa,
                status_updated = (updated \<noteq> []), updated_records = updated\<rparr>"
  by (auto simp: check_weather_impact_def seq_Inr_iff Let_def
           split: option.splits if_splits prod.splits)

lemma check_weather_impact_run:
  assumes "first_where (\<lambda>s. sup_id s = wi_supplier_id request) (suppliers db) = Some supplier"
    and "coordinates c request supplier = Inr (la, lo)"
    and "strptime c (delivery_date request) = Some d"
    and "truthy (get_historical_weather (api c) la lo (delivery_date request))"
    and "analyze_adverse_weather (fmt_number c)
          (get_historical_weather (api c) la lo (delivery_date request)) = Inr wa"
    and "update_records wa request d (compliance_records db) = Inr (rows, updated)"
  shows "check_weather_impact c db request =
           Inr (db\<lparr>compliance_records := rows\<rparr>, updated \<noteq> [],
                \<lparr>weather_analysis = wa, wi_justification = justification wa,
                 status_updated = (updated \<noteq> []), updated_records = updated\<rparr>)"
  using assms by (simp add: check_weather_impact_def seq_def Let_def)

lemma check_weather_impact_again:
  assumes "check_weather_impact c db request = Inr (db', committed, resp)"
  shows "check_weather_impact c db' request =
           Inr (db', False, resp\<lparr>status_updated := False, updated_records := []\<rparr>)"
proof -
  from check_weather_impact_parts [OF assms] obtain supplier la lo d wa rows updated where
    s: "first_where (\<lambda>s. sup_id s = wi_supplier_id request) (suppliers db) = Some supplier"
    and co: "coordinates c request supplier = Inr (la, lo)"
    and dt: "strptime c (delivery_date request) = Some d"
    and tr: "truthy (get_historical_weather (api c) la lo (delivery_date request))"
    and an: "analyze_adverse_weather (fmt_number c)
          (get_historical_weather (api c) la lo (delivery_date request)) = Inr wa"
    and up: "update_records wa request d (compliance_records db) = Inr (rows, updated)"
    and db': "db' = db\<lparr>compliance_records := rows\<rparr>"
    and resp: "resp = \<lparr>weather_analysis = wa, wi_justification = justification wa,
                status_updated = (updated \<noteq> []), updated_records = updated\<rparr>"
    by blast
  have s': "first_where (\<lambda>s. sup_id s = wi_supplier_id request) (suppliers db') = Some supplier"
    using s by (simp add: db')
  have up': "update_records wa request d (compliance_records db') = Inr (rows, [])"
    using update_records_again [OF up] by (simp add: db')
  from check_weather_impact_run [OF s' co dt tr an up']
  show ?thesis by (simp add: db' resp)
qed

lemma excuse_late_row: "excuse drizzle_analysis late_row = excused_row"
  by (simp add: excuse_def late_row_def excused_row_def drizzle_analysis_def)

lemma rainy_day_run:
  "compliance_record_id request = None \<or> compliance_record_id request = Some 0 \<Longrightarrow>
   wi_supplier_id request = 1 \<Longrightarrow> lat request = Some la \<Longrightarrow> lon request = Some lo \<Longrightarrow>
   delivery_date request = ''2024-03-05'' \<Longrightarrow>
   check_weather_impact rainy_day stored_db request =
     Inr (excused_db, True,
          \<lparr>weather_analysis = drizzle_analysis,
           wi_justification = justification drizzle_analysis,
           status_updated = True, updated_records = [excused_row]\<rparr>)"
proof -
  assume a: "compliance_record_id request = None \<or> compliance_record_id request = Some 0"
    "wi_supplier_id request = 1" "lat request = Some la" "lon request = Some lo"
    "delivery_date request = ''2024-03-05''"
  have s: "first_where (\<lambda>s. sup_id s = wi_supplier_id request) (suppliers stored_db)
             = Some example_supplier"
    by (simp add: a stored_db_def first_where_def example_supplier_def)
  have co: "coordinates rainy_day request example_supplier = Inr (la, lo)"
    by (simp add: coordinates_def a)
  have dt: "strptime rainy_day (delivery_date request) = Some (Date 2024 3 5)"
    by (simp add: rainy_day_def a)
  have w: "get_historical_weather (api rainy_day) la lo (delivery_date request) = drizzle_report"
    by (simp add: rainy_day_def get_historical_weather_def)
  have tr: "truthy (get_historical_weather (api rainy_day) la lo (delivery_date request))"
    unfolding w by (simp add: drizzle_report_def observation_def)
  have an: "analyze_adverse_weather (fmt_number rainy_day)
              (get_historical_weather (api rainy_day) la lo (delivery_date request))
            = Inr drizzle_analysis"
    unfolding w using drizzle_report_analysis by (simp add: rainy_day_def)
  have adv: "has_adverse_weather drizzle_analysis"
    by (simp add: drizzle_analysis_def)
  have tg: "is_target 1 (Date 2024 3 5) late_row"
    by (simp add: is_target_def late_row_def)
  have up: "update_records drizzle_analysis request (Date 2024 3 5) (compliance_records stored_db)
              = Inr ([excused_row], [excused_row])"
    using a(1) adv tg
    by (auto simp: update_records_def Let_def a(2) stored_db_def excuse_late_row)
  from check_weather_impact_run [OF s co dt tr an up]
  show ?thesis by (simp add: stored_db_def excused_db_def)
qed

text \<open>
  C7. The request names the record id 0, which no record of supplier 1 has. Line 189
  tests the truth value of the id, so the router takes the branch for a request
  without a record id: it does not answer 404, and it reclassifies the non-compliant
  record of the delivery date. For a record id other than 0 the claim holds (lemmas
  \<open>explicit_record_id\<close> and \<open>explicit_record_id_not_found\<close>).
\<close>

theorem zero_record_id_reclassifies:
  "first_where (\<lambda>r. rec_id r = 0 \<and> supplier_id r = 1) (compliance_records stored_db) = None
   \<and> check_weather_impact rainy_day stored_db zero_id_request =
       Inr (excused_db, True,
            \<lparr>weather_analysis = drizzle_analysis,
             wi_justification = justification drizzle_analysis,
             status_updated = True, updated_records = [excused_row]\<rparr>)"
proof -
  have "first_where (\<lambda>r. rec_id r = 0 \<and> supplier_id r = 1) (compliance_records stored_db) = None"
    by (simp add: first_where_def stored_db_def late_row_def)
  moreover have "check_weather_impact rainy_day stored_db zero_id_request =
       Inr (excused_db, True,
            \<lparr>weather_analysis = drizzle_analysis,
             wi_justification = justification drizzle_analysis,
             status_updated = True, updated_records = [excused_row]\<rparr>)"
    by (rule rainy_day_run [where la = 19 and lo = 73]) (simp_all add: zero_id_request_def)
  ultimately show ?thesis by simp
qed

text \<open>The part of C7 that holds: a record id that is given and is not 0.\<close>

lemma explicit_record_id:
  assumes "compliance_record_id request = Some k" "k \<noteq> 0"
  shows "first_where (\<lambda>r. rec_id r = k \<and> supplier_id r = wi_supplier_id request) rows = None \<Longrightarrow>
           update_records wa request d rows = Inl (HTTP 404)"
    and "first_where (\<lambda>r. rec_id r = k \<and> supplier_id r = wi_supplier_id request) rows = Some x \<Longrightarrow>
           status x \<noteq> ''non-compliant'' \<Longrightarrow> update_records wa request d rows = Inr (rows, [])"
    and "first_where (\<lambda>r. rec_id r = k \<and> supplier_id r = wi_supplier_id request) rows = Some x \<Longrightarrow>
           status x = ''non-compliant'' \<Longrightarrow> has_adverse_weather wa \<Longrightarrow>
           update_records wa request d rows =
             Inr (update_first (\<lambda>r. rec_id r = k \<and> supplier_id r = wi_supplier_id request)
                    (excuse wa) rows, [excuse wa x])"
  using assms by (simp_all add: update_records_def Let_def)

lemma explicit_record_id_not_found:
  assumes "compliance_record_id request = Some k" "k \<noteq> 0"
    and "first_where (\<lambda>r. rec_id r = k \<and> supplier_id r = wi_supplier_id request)
           (compliance_records db) = None"
  shows "\<exists>e. check_weather_impact c db request = Inl e"
proof (cases "check_weather_impact c db request")
  case (Inr x)
  obtain db' committed resp where "x = (db', committed, resp)" by (cases x)
  with Inr check_weather_impact_parts [of c db request db' committed resp]
  obtain wa d rows updated where
    "update_records wa request d (compliance_records db) = Inr (rows, updated)" by blast
  with explicit_record_id(1) [OF assms(1,2,3)] show ?thesis by simp
qed simp

text \<open>
  C4. The store after two runs of the weather adjudication with the same request and
  the same collaborators is the store after one run. When the observation is benign,
  a run changes no row, does not commit and lists no updated record. Every record a
  run lists as updated has the status \<open>excused-weather\<close> and is no target of the
  selection for any date, every row a run changed has that status, and a second run on
  the store of the first returns the same analysis, changes nothing and does not
  commit.
\<close>

theorem adjudication_idempotent:
  "db_after (db_after db (check_weather_impact c db request))
       (check_weather_impact c (db_after db (check_weather_impact c db request)) request)
     = db_after db (check_weather_impact c db request)
   \<and> (check_weather_impact c db request = Inr (db', committed, resp) \<longrightarrow>
        (\<not> has_adverse_weather (weather_analysis resp) \<longrightarrow>
           db' = db \<and> \<not> committed \<and> updated_records resp = [])
      \<and> (\<forall>r \<in> set (updated_records resp).
           status r = ''excused-weather'' \<and> \<not> is_target (wi_supplier_id request) d r)
      \<and> (\<forall>i < length (compliance_records db).
           compliance_records db' ! i \<noteq> compliance_records db ! i \<longrightarrow>
             status (compliance_records db' ! i) = ''excused-weather'')
      \<and> check_weather_impact c db' request =
           Inr (db', False, resp\<lparr>status_updated := False, updated_records := []\<rparr>))"
proof -
  have run: "(\<not> has_adverse_weather (weather_analysis resp) \<longrightarrow>
           db' = db \<and> \<not> committed \<and> updated_records resp = [])
      \<and> (\<forall>r \<in> set (updated_records resp).
           status r = ''excused-weather'' \<and> \<not> is_target (wi_supplier_id request) d r)
      \<and> (\<forall>i < length (compliance_records db).
           compliance_records db' ! i \<noteq> compliance_records db ! i \<longrightarrow>
             status (compliance_records db' ! i) = ''excused-weather'')
      \<and> check_weather_impact c db' request =
           Inr (db', False, resp\<lparr>status_updated := False, updated_records := []\<rparr>)"
    if ok: "check_weather_impact c db request = Inr (db', committed, resp)"
    for db' committed resp
  proof -
    from check_weather_impact_parts [OF ok] obtain wa d0 rows updated where
      up: "update_records wa request d0 (compliance_records db) = Inr (rows, updated)"
      and db': "db' = db\<lparr>compliance_records := rows\<rparr>"
      and cm: "committed = (updated \<noteq> [])"
      and resp: "resp = \<lparr>weather_analysis = wa, wi_justification = justification wa,
                status_updated = (updated \<noteq> []), updated_records = updated\<rparr>"
      by blast
    note ch = update_records_changes [OF up]
    have benign: "\<not> has_adverse_weather (weather_analysis resp) \<longrightarrow>
           db' = db \<and> \<not> committed \<and> updated_records resp = []"
      using ch(4) by (simp add: db' cm resp)
    have excused: "\<forall>r \<in> set (updated_records resp).
           status r = ''excused-weather'' \<and> \<not> is_target (wi_supplier_id request) d r"
      using ch(3) by (simp add: resp is_target_def)
    have changed: "\<forall>i < length (compliance_records db).
           compliance_records db' ! i \<noteq> compliance_records db ! i \<longrightarrow>
             status (compliance_records db' ! i) = ''excused-weather''"
      using ch(2) by (auto simp: db' excuse_fields)
    from benign excused changed check_weather_impact_again [OF ok] show ?thesis by blast
  qed
  have idem: "db_after (db_after db (check_weather_impact c db request))
       (check_weather_impact c (db_after db (check_weather_impact c db request)) request)
     = db_after db (check_weather_impact c db request)"
  proof (cases "check_weather_impact c db request")
    case (Inl e)
    then show ?thesis by (simp add: db_after_def)
  next
    case (Inr x)
    obtain db1 committed1 resp1 where x: "x = (db1, committed1, resp1)" by (cases x)
    with Inr run [of db1 committed1 resp1] show ?thesis by (simp add: db_after_def)
  qed
  from idem run show ?thesis by blast
qed

text \<open>
  The late delivery of the example is excused by a first run on a rainy day, and a
  second run leaves the store as it is.
\<close>

theorem adjudication_idempotent_witness:
  "db_after stored_db (check_weather_impact rainy_day stored_db impact_request) = excused_db
   \<and> db_after excused_db (check_weather_impact rainy_day excused_db impact_request) = excused_db
   \<and> status excused_row = ''excused-weather''
   \<and> check_weather_impact rainy_day excused_db impact_request =
       Inr (excused_db, False,
            \<lparr>weather_analysis = drizzle_analysis,
             wi_justification = justification drizzle_analysis,
             status_updated = False, updated_records = []\<rparr>)"
proof -
  have first: "check_weather_impact rainy_day stored_db impact_request =
     Inr (excused_db, True,
          \<lparr>weather_analysis = drizzle_analysis,
           wi_justification = justification drizzle_analysis,
           status_updated = True, updated_records = [excused_row]\<rparr>)"
    by (rule rainy_day_run [where la = 19 and lo = 73]) (simp_all add: impact_request_def)
  from adjudication_idempotent [of stored_db rainy_day impact_request excused_db True
      "\<lparr>weather_analysis = drizzle_analysis,
           wi_justification = justification drizzle_analysis,
           status_updated = True, updated_records = [excused_row]\<rparr>" "Date 2024 3 5"] first
  show ?thesis by (simp add: db_after_def)
qed

lemma arrival_result:
  "create_compliance_record example_db 1 excused_on_arrival =
     Inr (\<lparr>suppliers = [example_supplier], compliance_records = [arrived_row]\<rparr>, arrived_row)"
  by (simp add: create_compliance_record_def example_db_def first_where_def example_supplier_def
        excused_on_arrival_def arrived_row_def next_id_def Let_def)

text \<open>
  C9, as stated, fails: \<open>create_compliance_record\<close> stores the status of the request
  as it is, here \<open>excused-weather\<close>, at creation.
\<close>

theorem excused_at_creation_counterexample:
  "create_compliance_record example_db 1 excused_on_arrival =
     Inr (\<lparr>suppliers = [example_supplier], compliance_records = [arrived_row]\<rparr>, arrived_row)
   \<and> status arrived_row = ''excused-weather''"
  using arrival_result by (simp add: arrived_row_def)

lemma status_value_cases:
  "status_value rd = status rd
   \<or> (expected_value rd \<noteq> None
      \<and> py_lower (metric rd) \<in> {''delivery_time'', ''lead_time'', ''quality_score'', ''quality_rating''}
      \<and> status_value rd \<in> {''compliant'', ''non-compliant''})"
  by (auto simp: status_value_def split: option.splits)

text \<open>
  C9, amended. At creation the status of a record is the status the caller supplied:
  \<open>create_compliance_record\<close> appends one row with the status of the request, and an
  ingested batch appends its rows, each with the status of its input record or, when
  that record has an expected value and a recognised metric name, with \<open>compliant\<close>
  or \<open>non-compliant\<close>. The weather adjudication keeps the number of rows and changes
  a row only from \<open>non-compliant\<close> to \<open>excused-weather\<close>. When the statuses in the
  store and the statuses the caller supplies are among the three values, so are the
  statuses in the store after each of the three operations.
\<close>

theorem verdict_provenance:
  "(create_compliance_record db sid rq = Inr (db1, row) \<longrightarrow>
      compliance_records db1 = compliance_records db @ [row] \<and> status row = status rq)
   \<and> (check_compliance db request ai = (db2, Inr resp) \<longrightarrow>
      compliance_records db2 = compliance_records db @ cc_records resp
      \<and> length (cc_records resp) = length (compliance_data request)
      \<and> (\<forall>i < length (compliance_data request).
            status (cc_records resp ! i) = status (compliance_data request ! i)
            \<or> (expected_value (compliance_data request ! i) \<noteq> None
               \<and> py_lower (metric (compliance_data request ! i))
                    \<in> {''delivery_time'', ''lead_time'', ''quality_score'', ''quality_rating''}
               \<and> status (cc_records resp ! i) \<in> {''compliant'', ''non-compliant''})))
   \<and> (check_weather_impact c db wrequest = Inr (db3, committed, wresp) \<longrightarrow>
      length (compliance_records db3) = length (compliance_records db)
      \<and> (\<forall>i < length (compliance_records db).
            compliance_records db3 ! i = compliance_records db ! i
            \<or> (status (compliance_records db ! i) = ''non-compliant''
               \<and> status (compliance_records db3 ! i) = ''excused-weather'')))
   \<and> ((\<forall>r \<in> set (compliance_records db). valid_status (status r)) \<longrightarrow>
        (create_compliance_record db sid rq = Inr (db1, row) \<and> valid_status (status rq) \<longrightarrow>
           (\<forall>r \<in> set (compliance_records db1). valid_status (status r)))
      \<and> (check_compliance db request ai = (db2, out)
           \<and> (\<forall>rd \<in> set (compliance_data request). valid_status (status rd)) \<longrightarrow>
           (\<forall>r \<in> set (compliance_records db2). valid_status (status r)))
      \<and> (check_weather_impact c db wrequest = Inr (db3, committed, wresp) \<longrightarrow>
           (\<forall>r \<in> set (compliance_records db3). valid_status (status r))))"
proof -
  have a: "compliance_records db1 = compliance_records db @ [row] \<and> status row = status rq"
    if "create_compliance_record db sid rq = Inr (db1, row)"
    using that by (auto simp: create_compliance_record_def Let_def split: option.splits)
  have b: "compliance_records db2 = compliance_records db @ cc_records resp
      \<and> length (cc_records resp) = length (compliance_data request)
      \<and> (\<forall>i < length (compliance_data request).
            status (cc_records resp ! i) = status (compliance_data request ! i)
            \<or> (expected_value (compliance_data request ! i) \<noteq> None
               \<and> py_lower (metric (compliance_data request ! i))
                    \<in> {''delivery_time'', ''lead_time'', ''quality_score'', ''quality_rating''}
               \<and> status (cc_records resp ! i) \<in> {''compliant'', ''non-compliant''}))"
    if ok: "check_compliance db request ai = (db2, Inr resp)"
  proof -
    have "length (cc_records resp) = length (compliance_data request)"
      by (simp add: check_compliance_records(1) [OF ok] stage_length)
    moreover have "status (cc_records resp ! i) = status (compliance_data request ! i)
            \<or> (expected_value (compliance_data request ! i) \<noteq> None
               \<and> py_lower (metric (compliance_data request ! i))
                    \<in> {''delivery_time'', ''lead_time'', ''quality_score'', ''quality_rating''}
               \<and> status (cc_records resp ! i) \<in> {''compliant'', ''non-compliant''})"
      if "i < length (compliance_data request)" for i
      using status_value_cases [of "compliance_data request ! i"]
      by (simp only: check_compliance_status [OF ok that])
    ultimately show ?thesis
      using check_compliance_records(2) [OF ok] by blast
  qed
  have w: "length (compliance_records db3) = length (compliance_records db)
      \<and> (\<forall>i < length (compliance_records db).
            compliance_records db3 ! i = compliance_records db ! i
            \<or> (status (compliance_records db ! i) = ''non-compliant''
               \<and> status (compliance_records db3 ! i) = ''excused-weather''))"
    if ok: "check_weather_impact c db wrequest = Inr (db3, committed, wresp)"
  proof -
    from check_weather_impact_parts [OF ok] obtain wa d0 rows updated where
      up: "update_records wa wrequest d0 (compliance_records db) = Inr (rows, updated)"
      and db3: "db3 = db\<lparr>compliance_records := rows\<rparr>"
      by blast
    from update_records_changes(1,2) [OF up] show ?thesis
      by (auto simp: db3 excuse_fields)
  qed
  have va: "\<forall>r \<in> set (compliance_records db1). valid_status (status r)"
    if "\<forall>r \<in> set (compliance_records db). valid_status (status r)"
      "create_compliance_record db sid rq = Inr (db1, row)" "valid_status (status rq)"
    using a [OF that(2)] that(1,3) by auto
  have vb: "\<forall>r \<in> set (compliance_records db2). valid_status (status r)"
    if old: "\<forall>r \<in> set (compliance_records db). valid_status (status r)"
      and ok: "check_compliance db request ai = (db2, out)"
      and inp: "\<forall>rd \<in> set (compliance_data request). valid_status (status rd)"
  proof
    let ?new = "stage (next_id (compliance_records db)) (cc_supplier_id request) ai
                  (compliance_data request)"
    fix r assume "r \<in> set (compliance_records db2)"
    with check_compliance_store [OF ok]
    have "r \<in> set (compliance_records db) \<or> r \<in> set ?new"
      by auto
    then show "valid_status (status r)"
    proof
      assume "r \<in> set (compliance_records db)"
      with old show ?thesis by blast
    next
      assume "r \<in> set ?new"
      then obtain i where i: "i < length (compliance_data request)" and r: "r = ?new ! i"
        by (auto simp: in_set_conv_nth stage_length)
      then have "valid_status (status (compliance_data request ! i))"
        using inp by simp
      moreover have "status r = status_value (compliance_data request ! i)"
        unfolding r using i by (rule stage_status)
      ultimately show ?thesis
        using status_value_cases [of "compliance_data request ! i"]
        by (auto simp: valid_status_def)
    qed
  qed
  have vw: "\<forall>r \<in> set (compliance_records db3). valid_status (status r)"
    if old: "\<forall>r \<in> set (compliance_records db). valid_status (status r)"
      and ok: "check_weather_impact c db wrequest = Inr (db3, committed, wresp)"
  proof
    fix r assume "r \<in> set (compliance_records db3)"
    then obtain i where i: "i < length (compliance_records db3)"
      and r: "r = compliance_records db3 ! i"
      by (auto simp: in_set_conv_nth)
    with w [OF ok] have i': "i < length (compliance_records db)" by simp
    then have "valid_status (status (compliance_records db ! i))"
      using old by simp
    moreover from w [OF ok] i'
    have "compliance_records db3 ! i = compliance_records db ! i
            \<or> status (compliance_records db3 ! i) = ''excused-weather''"
      by blast
    ultimately show "valid_status (status r)" unfolding r by (auto simp: valid_status_def)
  qed
  from a b w va vb vw show ?thesis by blast
qed

theorem verdict_provenance_witness:
  "status arrived_row = status excused_on_arrival
   \<and> valid_status (status excused_row)
   \<and> valid_status (status (fallback_rows ! 1))
   \<and> status (fallback_rows ! 0) = status (compliance_data fallback_batch ! 0)
   \<and> (compliance_records excused_db ! 0 = compliance_records stored_db ! 0
      \<or> status (compliance_records stored_db ! 0) = ''non-compliant''
        \<and> status (compliance_records excused_db ! 0) = ''excused-weather'')"
proof -
  note cr = arrival_result
  have wi: "check_weather_impact rainy_day stored_db impact_request =
     Inr (excused_db, True,
          \<lparr>weather_analysis = drizzle_analysis,
           wi_justification = justification drizzle_analysis,
           status_updated = True, updated_records = [excused_row]\<rparr>)"
    by (rule rainy_day_run [where la = 19 and lo = 73]) (simp_all add: impact_request_def)
  have m: "py_lower (metric (compliance_data fallback_batch ! 0))
             \<notin> {''delivery_time'', ''lead_time'', ''quality_score'', ''quality_rating''}"
    by code_simp
  have a: "status arrived_row = status excused_on_arrival"
    using verdict_provenance [where db = example_db and sid = 1 and rq = excused_on_arrival
        and ?db1.0 = "\<lparr>suppliers = [example_supplier], compliance_records = [arrived_row]\<rparr>"
        and row = arrived_row] cr
    by blast
  let ?R = "\<lparr>cc_records = fallback_rows,
           cc_ai_analysis = harsh_opinion, updated_compliance_score = JNum 0\<rparr>"
  have all: "\<forall>i < length (compliance_data fallback_batch).
            status (cc_records ?R ! i) = status (compliance_data fallback_batch ! i)
            \<or> (expected_value (compliance_data fallback_batch ! i) \<noteq> None
               \<and> py_lower (metric (compliance_data fallback_batch ! i))
                    \<in> {''delivery_time'', ''lead_time'', ''quality_score'', ''quality_rating''}
               \<and> status (cc_records ?R ! i) \<in> {''compliant'', ''non-compliant''})"
    using verdict_provenance [where db = example_db and request = fallback_batch
        and ai = harsh_opinion and resp = ?R
        and ?db2.0 = "\<lparr>suppliers = [example_supplier\<lparr>compliance_score := JNum 0\<rparr>],
           compliance_records = fallback_rows\<rparr>"]
      fallback_batch_result
    by blast
  have i0: "\<forall>rd \<in> set (compliance_data fallback_batch). valid_status (status rd)"
    by (simp add: fallback_batch_def odd_metric_def no_expectation_def valid_status_def)
  have e0: "\<forall>r \<in> set (compliance_records example_db). valid_status (status r)"
    by (simp add: example_db_def)
  have "\<forall>r \<in> set fallback_rows. valid_status (status r)"
    using verdict_provenance [where db = example_db and request = fallback_batch
        and ai = harsh_opinion and out = "Inr ?R"
        and ?db2.0 = "\<lparr>suppliers = [example_supplier\<lparr>compliance_score := JNum 0\<rparr>],
           compliance_records = fallback_rows\<rparr>"]
      fallback_batch_result i0 e0
    by simp
  then have vf: "valid_status (status (fallback_rows ! 1))"
    by (simp add: fallback_rows_def)
  have len: "0 < length (compliance_data fallback_batch)"
    by (simp add: fallback_batch_def)
  from all [rule_format, OF len] m
  have b: "status (fallback_rows ! 0) = status (compliance_data fallback_batch ! 0)"
    by simp
  let ?W = "\<lparr>weather_analysis = drizzle_analysis,
           wi_justification = justification drizzle_analysis,
           status_updated = True, updated_records = [excused_row]\<rparr>"
  have all3: "\<forall>i < length (compliance_records stored_db).
            compliance_records excused_db ! i = compliance_records stored_db ! i
            \<or> (status (compliance_records stored_db ! i) = ''non-compliant''
               \<and> status (compliance_records excused_db ! i) = ''excused-weather'')"
    using verdict_provenance [where db = stored_db and c = rainy_day and wrequest = impact_request
        and ?db3.0 = excused_db and committed = True and wresp = ?W] wi
    by blast
  have len3: "0 < length (compliance_records stored_db)"
    by (simp add: stored_db_def)
  note c = all3 [rule_format, OF len3]
  have v0: "\<forall>r \<in> set (compliance_records stored_db). valid_status (status r)"
    by (simp add: stored_db_def late_row_def valid_status_def)
  have "\<forall>r \<in> set (compliance_records excused_db). valid_status (status r)"
    using verdict_provenance [where db = stored_db and c = rainy_day and wrequest = impact_request
        and ?db3.0 = excused_db and committed = True and wresp = ?W] wi v0
    by blast
  then have v: "valid_status (status excused_row)"
    by (simp add: excused_db_def)
  show ?thesis using a b c v vf by blast
qed

end
